theory Spec2Isabelle
  imports Complex_Main "HOL-Library.Word"
begin

section \<open>Tokens, currencies and venues\<close>

text \<open>
  The value objects come from the SDK packages the router imports. A token is identified
  by its chain and its 20-byte address; \<open>Token.equals\<close> compares exactly these two.
  The address is kept as a 160-bit word (the SDK stores its checksummed hex string, which
  the token constructor validates to be 20 bytes).
\<close>

type_synonym byte = "8 word"
type_synonym address = "160 word"

record token =
  chainId :: nat
  address :: address
  decimals :: nat

definition Token_equals :: "token \<Rightarrow> token \<Rightarrow> bool" where
  "Token_equals a b \<longleftrightarrow> chainId a = chainId b \<and> address a = address b"

text \<open>
  \<open>Currency = NativeCurrency | Token\<close>. A native currency exposes its wrapped token
  through the getter \<open>wrapped\<close>; the model stores what that getter returns. A token is
  its own wrapped form.
\<close>

datatype currency = NativeCurrency nat token | Tok token

fun wrapped :: "currency \<Rightarrow> token" where
  "wrapped (NativeCurrency c w) = w"
| "wrapped (Tok t) = t"

fun isNative :: "currency \<Rightarrow> bool" where
  "isNative (NativeCurrency c w) = True"
| "isNative (Tok t) = False"


text \<open>
  The fee tiers of a pool-style venue, the enumeration \<open>FeeAmount\<close> of the pool
  protocol's SDK, and their numeric values; the encoder's tests show 3000 for
  \<open>MEDIUM\<close> and 500 for \<open>LOW\<close>. A pool's fee is typed by this enumeration.
\<close>

datatype FeeAmount = LOWEST | LOW | MEDIUM | HIGH

fun fee_value :: "FeeAmount \<Rightarrow> nat" where
  "fee_value LOWEST = 100"
| "fee_value LOW = 500"
| "fee_value MEDIUM = 3000"
| "fee_value HIGH = 10000"

text \<open>
  A pair holds two token reserves, a pool two tokens, a fee tier and its price state.
  Both expose \<open>token0\<close> and \<open>token1\<close>; a route's venue list is \<open>(Pool | Pair)[]\<close>.
\<close>

record pair =
  pair_token0 :: token
  pair_token1 :: token
  reserve0 :: int
  reserve1 :: int

record pool =
  pool_token0 :: token
  pool_token1 :: token
  fee :: FeeAmount
  sqrtRatioX96 :: int
  liquidity :: int
  tickCurrent :: int

datatype venue = PoolV pool | PairV pair

fun token0 :: "venue \<Rightarrow> token" where
  "token0 (PoolV p) = pool_token0 p"
| "token0 (PairV p) = pair_token0 p"

fun token1 :: "venue \<Rightarrow> token" where
  "token1 (PoolV p) = pool_token1 p"
| "token1 (PairV p) = pair_token1 p"

section \<open>Errors\<close>

datatype error =
    TypeError
  | RangeError
  | INPUT_CURRENCY_MATCH
  | OUTPUT_CURRENCY_MATCH
  | POOLS_DUPLICATED
  | SLIPPAGE_TOLERANCE
  | TOKEN
  | MalformedRoute
  | WrongNumberOfValues
  | InvalidNumberType
  | ValueOutOfRange
  | InvalidValue

section \<open>Tight packing of the path fields\<close>

text \<open>
  \<open>pack(types, values)\<close> of the solidity helper library packs each value at the width
  of its type, big-endian, with nothing between the fields, and returns the bytes as a
  lower-case hex string after the marker \<open>0x\<close>. Only the two field types the encoder
  emits are modelled: \<open>address\<close> (20 bytes) and \<open>uintN\<close> (N/8 bytes; a value that does
  not fit is refused). A value of the other kind than its type asks for is refused here;
  the encoder never builds such a pair.
\<close>

datatype sol_type = T_address | T_uint nat

datatype pack_value = V_address address | V_number nat

fun be_bytes :: "nat \<Rightarrow> nat \<Rightarrow> byte list" where
  "be_bytes 0 v = []"
| "be_bytes (Suc n) v = be_bytes n (v div 256) @ [of_nat (v mod 256)]"

fun pack1 :: "sol_type \<Rightarrow> pack_value \<Rightarrow> error + byte list" where
  "pack1 T_address (V_address a) = Inr (be_bytes 20 (unat a))"
| "pack1 (T_uint bits) (V_number v) =
     (if bits mod 8 \<noteq> 0 \<or> bits = 0 \<or> bits > 256 then Inl InvalidNumberType
      else if v < 2 ^ bits then Inr (be_bytes (bits div 8) v)
      else Inl ValueOutOfRange)"
| "pack1 T_address (V_number v) = Inl InvalidValue"
| "pack1 (T_uint bits) (V_address a) = Inl InvalidValue"

fun tight :: "sol_type list \<Rightarrow> pack_value list \<Rightarrow> error + byte list" where
  "tight [] vs = Inr []"
| "tight (ty # tys) [] = Inl WrongNumberOfValues"
| "tight (ty # tys) (v # vs) =
     (case pack1 ty v of
        Inl e \<Rightarrow> Inl e
      | Inr bs \<Rightarrow> (case tight tys vs of Inl e \<Rightarrow> Inl e | Inr rest \<Rightarrow> Inr (bs @ rest)))"

definition hex_digit :: "nat \<Rightarrow> char" where
  "hex_digit d = ''0123456789abcdef'' ! d"

definition hex_byte :: "byte \<Rightarrow> string" where
  "hex_byte b = [hex_digit (unat b div 16), hex_digit (unat b mod 16)]"

definition hexlify :: "byte list \<Rightarrow> string" where
  "hexlify bs = ''0x'' @ concat (map hex_byte bs)"

definition pack :: "sol_type list \<Rightarrow> pack_value list \<Rightarrow> error + string" where
  "pack tys vs =
     (if length tys \<noteq> length vs then Inl WrongNumberOfValues
      else case tight tys vs of Inl e \<Rightarrow> Inl e | Inr bs \<Rightarrow> Inr (hexlify bs))"

section \<open>Routes\<close>

text \<open>
  A route of any of the three kinds: the venue list (\<open>pairs\<close> of a pair-only route,
  \<open>pools\<close> of a pool-only or mixed route), the token path and the declared input and
  output currency. \<open>V1RouteSDK\<close> is a route over pairs, \<open>V2RouteSDK\<close> one over pools,
  \<open>MixedRouteSDK\<close> one over both. The mid price is computed by the route from its
  venues' state; the model carries the computed value.
\<close>

record price =
  baseCurrency :: currency
  quoteCurrency :: currency
  price_value :: rat

record 'v route_sdk =
  pools :: "'v list"
  path :: "token list"
  route_input :: currency
  route_output :: currency
  midPrice :: price

type_synonym V1RouteSDK = "pair route_sdk"
type_synonym V2RouteSDK = "pool route_sdk"
type_synonym MixedRouteSDK = "venue route_sdk"

section \<open>The path encoder\<close>

text \<open>
  Modelled from the spec: the constants module of the router is not among the source
  files. The spec calls this value the reserved sentinel fee value written for a
  pair-style venue; the encoder's tests fix it to \<open>0x800000\<close>.
\<close>

definition V1_FEE_PATH_PLACEHOLDER :: nat where
  "V1_FEE_PATH_PLACEHOLDER = 8388608"

record encode_acc =
  acc_inputToken :: token
  acc_path :: "pack_value list"
  acc_types :: "sol_type list"

text \<open>\<open>pool instanceof Pool ? pool.fee : V1_FEE_PATH_PLACEHOLDER\<close>\<close>

definition fee_field :: "venue \<Rightarrow> pack_value" where
  "fee_field pool =
     (case pool of PoolV p \<Rightarrow> V_number (fee_value (fee p))
                 | PairV p \<Rightarrow> V_number V1_FEE_PATH_PLACEHOLDER)"

text \<open>The callback's local \<open>outputToken\<close>, for a venue and the running input token.\<close>

definition outputToken :: "venue \<Rightarrow> token \<Rightarrow> token" where
  "outputToken pool inputToken =
     (if Token_equals (token0 pool) inputToken then token1 pool else token0 pool)"

definition encode_step :: "encode_acc \<Rightarrow> venue \<Rightarrow> nat \<Rightarrow> encode_acc" where
  "encode_step acc pool index =
     (let inputToken = acc_inputToken acc;
          outputTok = outputToken pool inputToken
      in if index = 0 then
           \<lparr> acc_inputToken = outputTok,
             acc_path = [V_address (address inputToken), fee_field pool, V_address (address outputTok)],
             acc_types = [T_address, T_uint 24, T_address] \<rparr>
         else
           \<lparr> acc_inputToken = outputTok,
             acc_path = acc_path acc @ [fee_field pool, V_address (address outputTok)],
             acc_types = acc_types acc @ [T_uint 24, T_address] \<rparr>)"

text \<open>\<open>Array.prototype.reduce\<close> with the element index passed to the callback.\<close>

fun reduce_from :: "('a \<Rightarrow> 'b \<Rightarrow> nat \<Rightarrow> 'a) \<Rightarrow> nat \<Rightarrow> 'b list \<Rightarrow> 'a \<Rightarrow> 'a" where
  "reduce_from f i [] acc = acc"
| "reduce_from f i (x # xs) acc = reduce_from f (Suc i) xs (f acc x i)"

definition encode_fields :: "MixedRouteSDK \<Rightarrow> encode_acc" where
  "encode_fields route =
     (let firstInputToken = wrapped (route_input route)
      in reduce_from encode_step 0 (pools route)
           \<lparr> acc_inputToken = firstInputToken, acc_path = [], acc_types = [] \<rparr>)"

definition encodeMixedRouteToPath :: "MixedRouteSDK \<Rightarrow> error + string" where
  "encodeMixedRouteToPath route =
     (let r = encode_fields route in pack (acc_types r) (acc_path r))"

text \<open>
  Modelled from the spec: the mixed route model (entities/mixedRoute/route.ts) is not
  among the source files. Section 4.1 of the spec: a route is constructed from a non-empty
  ordered venue sequence plus input and output currency; construction fails if the chain
  is not contiguous (the wrapped input does not match the first venue's entry token, the
  wrapped output does not match the last venue's exit token, or an internal adjacency
  mismatch); it exposes the venue sequence and the full token path, one more entry than
  venues. The mid price is taken as given.
\<close>

fun tokenPath_from :: "token \<Rightarrow> venue list \<Rightarrow> error + token list" where
  "tokenPath_from t [] = Inr [t]"
| "tokenPath_from t (v # vs) =
     (if Token_equals t (token0 v) then
        (case tokenPath_from (token1 v) vs of Inl e \<Rightarrow> Inl e | Inr ts \<Rightarrow> Inr (t # ts))
      else if Token_equals t (token1 v) then
        (case tokenPath_from (token0 v) vs of Inl e \<Rightarrow> Inl e | Inr ts \<Rightarrow> Inr (t # ts))
      else Inl MalformedRoute)"

definition MixedRouteSDK_new ::
  "venue list \<Rightarrow> currency \<Rightarrow> currency \<Rightarrow> price \<Rightarrow> error + MixedRouteSDK" where
  "MixedRouteSDK_new ps inp out mid =
     (if ps = [] then Inl MalformedRoute
      else case tokenPath_from (wrapped inp) ps of
             Inl e \<Rightarrow> Inl e
           | Inr ts \<Rightarrow>
               if Token_equals (last ts) (wrapped out)
               then Inr \<lparr> pools = ps, path = ts, route_input = inp, route_output = out,
                          midPrice = mid \<rparr>
               else Inl MalformedRoute)"

subsection \<open>The fields of an encoded path, venue by venue\<close>

text \<open>
  The hops of a venue chain from a starting token: each venue with the output token the
  encoder's callback picks for it, and the token left after the last venue.
\<close>

fun hops :: "token \<Rightarrow> venue list \<Rightarrow> (venue \<times> token) list" where
  "hops t [] = []"
| "hops t (v # vs) = (v, outputToken v t) # hops (outputToken v t) vs"

fun final_token :: "token \<Rightarrow> venue list \<Rightarrow> token" where
  "final_token t [] = t"
| "final_token t (v # vs) = final_token (outputToken v t) vs"

fun fee_number :: "venue \<Rightarrow> nat" where
  "fee_number (PoolV p) = fee_value (fee p)"
| "fee_number (PairV p) = V1_FEE_PATH_PLACEHOLDER"

fun hop_fields :: "(venue \<times> token) \<Rightarrow> pack_value list" where
  "hop_fields (v, t) = [fee_field v, V_address (address t)]"

definition address_bytes :: "token \<Rightarrow> byte list" where
  "address_bytes t = be_bytes 20 (unat (address t))"

fun hop_bytes :: "(venue \<times> token) \<Rightarrow> byte list" where
  "hop_bytes (v, t) = be_bytes 3 (fee_number v) @ address_bytes t"

section \<open>Fractions and currency amounts\<close>

text \<open>
  Modelled from the spec: the fraction and amount types belong to the core SDK package,
  which is not among the source files. Section 6 of the spec: a rational amount type with
  integer numerator and denominator and exact (non-lossy) \<open>add\<close>, \<open>subtract\<close>,
  \<open>divide\<close>, \<open>multiply\<close> and \<open>lessThan\<close>. A Fraction is modelled by the rational
  number it denotes; \<open>quotient\<close> is the integer quotient of numerator by denominator,
  which big-integer division truncates towards zero. Dividing by a zero fraction is a
  range error (the quotient of the result has a zero denominator). A currency amount is
  a fraction with a currency; the arithmetic of two amounts keeps the currency of the
  left operand. The assertions the package makes on its own arguments are not part of
  this model.
\<close>

type_synonym Fraction = rat
type_synonym Percent = rat

definition Fraction_quotient :: "Fraction \<Rightarrow> int" where
  "Fraction_quotient x = (if 0 \<le> x then \<lfloor>x\<rfloor> else \<lceil>x\<rceil>)"

definition Fraction_lessThan :: "Fraction \<Rightarrow> Fraction \<Rightarrow> bool" where
  "Fraction_lessThan x y \<longleftrightarrow> x < y"

definition Fraction_add :: "Fraction \<Rightarrow> Fraction \<Rightarrow> Fraction" where
  "Fraction_add x y = x + y"

definition Fraction_multiply :: "Fraction \<Rightarrow> Fraction \<Rightarrow> Fraction" where
  "Fraction_multiply x y = x * y"

definition Fraction_invert :: "Fraction \<Rightarrow> error + Fraction" where
  "Fraction_invert x = (if x = 0 then Inl RangeError else Inr (1 / x))"

record CurrencyAmount =
  currency :: currency
  fraction :: Fraction

definition CurrencyAmount_fromRawAmount :: "currency \<Rightarrow> int \<Rightarrow> CurrencyAmount" where
  "CurrencyAmount_fromRawAmount c n = \<lparr> currency = c, fraction = of_int n \<rparr>"

definition CurrencyAmount_add :: "CurrencyAmount \<Rightarrow> CurrencyAmount \<Rightarrow> CurrencyAmount" where
  "CurrencyAmount_add a b = \<lparr> currency = currency a, fraction = fraction a + fraction b \<rparr>"




text \<open>
  Modelled from the spec: the constants module is not among the source files. The bound
  accessors fail on a negative tolerance and use (1 + tolerance), which fixes the two
  integers.
\<close>

definition ZERO :: int where
  "ZERO = 0"

definition ONE :: int where
  "ONE = 1"

section \<open>Route wrappers\<close>

datatype Protocol = V1 | V2 | MIXED

record IRoute = "venue route_sdk" +
  protocol :: Protocol

text \<open>
  Each wrapper passes the venues and currencies of the route it is given to the
  constructor of its base class and tags the result with its protocol. The route it is
  given was built by that same constructor, so the wrapper exposes the same venues, path,
  currencies and mid price. The pool protocol is tagged \<open>V2\<close> in the trade's source
  (\<open>V3\<close> in the other copy of the wrappers).
\<close>

definition RouteV1 :: "V1RouteSDK \<Rightarrow> IRoute" where
  "RouteV1 v1Route =
     \<lparr> pools = map PairV (pools v1Route), path = path v1Route,
       route_input = route_input v1Route, route_output = route_output v1Route,
       midPrice = midPrice v1Route, protocol = V1 \<rparr>"

definition RouteV2 :: "V2RouteSDK \<Rightarrow> IRoute" where
  "RouteV2 v2Route =
     \<lparr> pools = map PoolV (pools v2Route), path = path v2Route,
       route_input = route_input v2Route, route_output = route_output v2Route,
       midPrice = midPrice v2Route, protocol = V2 \<rparr>"

definition MixedRoute :: "MixedRouteSDK \<Rightarrow> IRoute" where
  "MixedRoute mixedRoute =
     \<lparr> pools = pools mixedRoute, path = path mixedRoute,
       route_input = route_input mixedRoute, route_output = route_output mixedRoute,
       midPrice = midPrice mixedRoute, protocol = MIXED \<rparr>"

section \<open>Trades\<close>

datatype TradeType = EXACT_INPUT | EXACT_OUTPUT

record swap =
  route :: IRoute
  inputAmount :: CurrencyAmount
  outputAmount :: CurrencyAmount

text \<open>
  A trade: its routes, its type and its swaps, with the three private fields that cache
  the derived amounts and the price impact once they have been computed.
\<close>

record Trade =
  routes :: "IRoute list"
  tradeType :: TradeType
  swaps :: "swap list"
  cached_inputAmount :: "CurrencyAmount option"
  cached_outputAmount :: "CurrencyAmount option"
  cached_priceImpact :: "Percent option"

text \<open>
  Modelled from the spec: \<open>Pool.getAddress\<close> and \<open>Pair.getAddress\<close> belong to the
  protocol SDK packages, which are not among the source files. Sections 3 and 6 of the
  spec: a deterministic venue identifier, of a pair-style venue by its two token
  addresses and of a pool-style venue by its two token addresses plus fee tier. The
  identifier is modelled as exactly these components.
\<close>

datatype venue_address =
    PoolAddress address address FeeAmount
  | PairAddress address address

definition Pool_getAddress :: "token \<Rightarrow> token \<Rightarrow> FeeAmount \<Rightarrow> venue_address" where
  "Pool_getAddress tokenA tokenB f = PoolAddress (address tokenA) (address tokenB) f"

definition Pair_getAddress :: "token \<Rightarrow> token \<Rightarrow> venue_address" where
  "Pair_getAddress tokenA tokenB = PairAddress (address tokenA) (address tokenB)"

text \<open>The three loops of the constructor that wrap the routes and build the swaps.\<close>

definition Trade_swaps ::
  "(V1RouteSDK \<times> CurrencyAmount \<times> CurrencyAmount) list \<Rightarrow>
   (V2RouteSDK \<times> CurrencyAmount \<times> CurrencyAmount) list \<Rightarrow>
   (MixedRouteSDK \<times> CurrencyAmount \<times> CurrencyAmount) list option \<Rightarrow> swap list" where
  "Trade_swaps v1Routes v2Routes mixedRoutes =
     map (\<lambda>(routev1, i, out). \<lparr> route = RouteV1 routev1, inputAmount = i, outputAmount = out \<rparr>) v1Routes
     @ map (\<lambda>(routev2, i, out). \<lparr> route = RouteV2 routev2, inputAmount = i, outputAmount = out \<rparr>) v2Routes
     @ (case mixedRoutes of
          None \<Rightarrow> []
        | Some ms \<Rightarrow>
            map (\<lambda>(mixedRoute, i, out). \<lparr> route = MixedRoute mixedRoute, inputAmount = i, outputAmount = out \<rparr>) ms)"

text \<open>The identifier the constructor's inner loop adds to its set for one venue.\<close>

fun venue_getAddress :: "venue \<Rightarrow> venue_address" where
  "venue_getAddress (PoolV p) = Pool_getAddress (pool_token0 p) (pool_token1 p) (fee p)"
| "venue_getAddress (PairV p) = Pair_getAddress (pair_token0 p) (pair_token1 p)"

definition numPools :: "swap list \<Rightarrow> nat" where
  "numPools ss = foldl (\<lambda>total cur. total + cur) 0 (map (\<lambda>s. length (pools (route s))) ss)"

definition poolAddressSet :: "swap list \<Rightarrow> venue_address set" where
  "poolAddressSet ss =
     foldl (\<lambda>S s. foldl (\<lambda>S pool. insert (venue_getAddress pool) S) S (pools (route s))) {} ss"

text \<open>
  The constructor. Reading \<open>swaps[0].inputAmount\<close> of an empty swap list is a type
  error of the language; the three invariants follow in the order of the source.
\<close>

definition Trade_new ::
  "(V1RouteSDK \<times> CurrencyAmount \<times> CurrencyAmount) list \<Rightarrow>
   (V2RouteSDK \<times> CurrencyAmount \<times> CurrencyAmount) list \<Rightarrow>
   TradeType \<Rightarrow>
   (MixedRouteSDK \<times> CurrencyAmount \<times> CurrencyAmount) list option \<Rightarrow> error + Trade" where
  "Trade_new v1Routes v2Routes tt mixedRoutes =
     (let ss = Trade_swaps v1Routes v2Routes mixedRoutes in
      case ss of
        [] \<Rightarrow> Inl TypeError
      | s0 # rest \<Rightarrow>
          let inputCurrency = currency (inputAmount s0);
              outputCurrency = currency (outputAmount s0)
          in if \<not> list_all (\<lambda>s. Token_equals (wrapped inputCurrency) (wrapped (route_input (route s)))) ss
             then Inl INPUT_CURRENCY_MATCH
             else if \<not> list_all (\<lambda>s. Token_equals (wrapped outputCurrency) (wrapped (route_output (route s)))) ss
             then Inl OUTPUT_CURRENCY_MATCH
             else if numPools ss = card (poolAddressSet ss)
             then Inr \<lparr> routes = map route ss, tradeType = tt, swaps = ss,
                        cached_inputAmount = None, cached_outputAmount = None,
                        cached_priceImpact = None \<rparr>
             else Inl POOLS_DUPLICATED)"

text \<open>The getters; each returns its value and the trade with the value cached.\<close>

definition Trade_inputAmount :: "Trade \<Rightarrow> error + CurrencyAmount \<times> Trade" where
  "Trade_inputAmount t =
     (case cached_inputAmount t of
        Some a \<Rightarrow> Inr (a, t)
      | None \<Rightarrow>
          (case swaps t of
             [] \<Rightarrow> Inl TypeError
           | s0 # rest \<Rightarrow>
               let inputCurrency = currency (inputAmount s0);
                   totalInputFromRoutes =
                     foldl CurrencyAmount_add (CurrencyAmount_fromRawAmount inputCurrency 0)
                       (map inputAmount (swaps t))
               in Inr (totalInputFromRoutes, t\<lparr>cached_inputAmount := Some totalInputFromRoutes\<rparr>)))"

definition Trade_outputAmount :: "Trade \<Rightarrow> error + CurrencyAmount \<times> Trade" where
  "Trade_outputAmount t =
     (case cached_outputAmount t of
        Some a \<Rightarrow> Inr (a, t)
      | None \<Rightarrow>
          (case swaps t of
             [] \<Rightarrow> Inl TypeError
           | s0 # rest \<Rightarrow>
               let outputCurrency = currency (outputAmount s0);
                   totalOutputFromRoutes =
                     foldl CurrencyAmount_add (CurrencyAmount_fromRawAmount outputCurrency 0)
                       (map outputAmount (swaps t))
               in Inr (totalOutputFromRoutes, t\<lparr>cached_outputAmount := Some totalOutputFromRoutes\<rparr>)))"



text \<open>
  The bound accessors. The optional amount defaults to the trade's own total, which is
  read before the body runs.
\<close>

definition Trade_minimumAmountOut ::
  "Trade \<Rightarrow> Percent \<Rightarrow> CurrencyAmount option \<Rightarrow> error + CurrencyAmount \<times> Trade" where
  "Trade_minimumAmountOut t slippageTolerance amountOut_arg =
     (case (case amountOut_arg of Some a \<Rightarrow> Inr (a, t) | None \<Rightarrow> Trade_outputAmount t) of
        Inl e \<Rightarrow> Inl e
      | Inr (amountOut, t1) \<Rightarrow>
          if Fraction_lessThan slippageTolerance (of_int ZERO) then Inl SLIPPAGE_TOLERANCE
          else if tradeType t1 = EXACT_OUTPUT then Inr (amountOut, t1)
          else
            (case Fraction_invert (Fraction_add (of_int ONE) slippageTolerance) of
               Inl e \<Rightarrow> Inl e
             | Inr inverted \<Rightarrow>
                 let slippageAdjustedAmountOut =
                       Fraction_quotient
                         (Fraction_multiply inverted (of_int (Fraction_quotient (fraction amountOut))))
                 in Inr (CurrencyAmount_fromRawAmount (currency amountOut) slippageAdjustedAmountOut, t1)))"

definition Trade_maximumAmountIn ::
  "Trade \<Rightarrow> Percent \<Rightarrow> CurrencyAmount option \<Rightarrow> error + CurrencyAmount \<times> Trade" where
  "Trade_maximumAmountIn t slippageTolerance amountIn_arg =
     (case (case amountIn_arg of Some a \<Rightarrow> Inr (a, t) | None \<Rightarrow> Trade_inputAmount t) of
        Inl e \<Rightarrow> Inl e
      | Inr (amountIn, t1) \<Rightarrow>
          if Fraction_lessThan slippageTolerance (of_int ZERO) then Inl SLIPPAGE_TOLERANCE
          else if tradeType t1 = EXACT_INPUT then Inr (amountIn, t1)
          else
            let slippageAdjustedAmountIn =
                  Fraction_quotient
                    (Fraction_multiply (Fraction_add (of_int ONE) slippageTolerance)
                       (of_int (Fraction_quotient (fraction amountIn))))
            in Inr (CurrencyAmount_fromRawAmount (currency amountIn) slippageAdjustedAmountIn, t1))"

section \<open>Quantities of a swap list\<close>

text \<open>
  What the properties below compare the constructor and the getters with. The two
  currency invariants of the constructor, as predicates of the swap list:
\<close>

definition input_currency_match :: "swap list \<Rightarrow> bool" where
  "input_currency_match ss =
     list_all (\<lambda>s. Token_equals (wrapped (currency (inputAmount (hd ss))))
                      (wrapped (route_input (route s)))) ss"

definition output_currency_match :: "swap list \<Rightarrow> bool" where
  "output_currency_match ss =
     list_all (\<lambda>s. Token_equals (wrapped (currency (outputAmount (hd ss))))
                      (wrapped (route_output (route s)))) ss"

text \<open>
  The sum of the swaps' input amounts, of their output amounts, and of each route's mid
  price applied to its input amount:
\<close>

definition total_input :: "swap list \<Rightarrow> rat" where
  "total_input ss = sum_list (map (\<lambda>s. fraction (inputAmount s)) ss)"

definition total_output :: "swap list \<Rightarrow> rat" where
  "total_output ss = sum_list (map (\<lambda>s. fraction (outputAmount s)) ss)"



text \<open>The amount a bound accessor works on: the one it is given, or else the trade's total.\<close>

definition output_or_given :: "Trade \<Rightarrow> CurrencyAmount option \<Rightarrow> CurrencyAmount" where
  "output_or_given t arg =
     (case arg of
        Some a \<Rightarrow> a
      | None \<Rightarrow> \<lparr> currency = currency (outputAmount (hd (swaps t))),
                   fraction = sum_list (map (\<lambda>s. fraction (outputAmount s)) (swaps t)) \<rparr>)"

definition input_or_given :: "Trade \<Rightarrow> CurrencyAmount option \<Rightarrow> CurrencyAmount" where
  "input_or_given t arg =
     (case arg of
        Some a \<Rightarrow> a
      | None \<Rightarrow> \<lparr> currency = currency (inputAmount (hd (swaps t))),
                   fraction = sum_list (map (\<lambda>s. fraction (inputAmount s)) (swaps t)) \<rparr>)"

text \<open>The venues of all swaps, in the order the constructor visits them.\<close>

definition all_venues :: "swap list \<Rightarrow> venue list" where
  "all_venues ss = concat (map (\<lambda>s. pools (route s)) ss)"

section \<open>The tokens, venues and routes of the encoder's tests\<close>

definition tok0 :: token where
  "tok0 = \<lparr> chainId = 570, address = 0x0000000000000000000000000000000000000001, decimals = 18 \<rparr>"

definition tok1 :: token where
  "tok1 = \<lparr> chainId = 570, address = 0x0000000000000000000000000000000000000002, decimals = 18 \<rparr>"

definition tok2 :: token where
  "tok2 = \<lparr> chainId = 570, address = 0x0000000000000000000000000000000000000003, decimals = 18 \<rparr>"

definition weth :: token where
  "weth = \<lparr> chainId = 570, address = 0x4200000000000000000000000000000000000006, decimals = 18 \<rparr>"

definition ETHER :: currency where
  "ETHER = NativeCurrency 570 weth"

definition pool_0_1_medium :: pool where
  "pool_0_1_medium = \<lparr> pool_token0 = tok0, pool_token1 = tok1, fee = MEDIUM,
     sqrtRatioX96 = 79228162514264337593543950336, liquidity = 0, tickCurrent = 0 \<rparr>"

definition pool_1_2_low :: pool where
  "pool_1_2_low = \<lparr> pool_token0 = tok1, pool_token1 = tok2, fee = LOW,
     sqrtRatioX96 = 79228162514264337593543950336, liquidity = 0, tickCurrent = 0 \<rparr>"

definition pool_0_weth :: pool where
  "pool_0_weth = \<lparr> pool_token0 = tok0, pool_token1 = weth, fee = MEDIUM,
     sqrtRatioX96 = 79228162514264337593543950336, liquidity = 0, tickCurrent = 0 \<rparr>"

definition pair_0_1 :: pair where
  "pair_0_1 = \<lparr> pair_token0 = tok0, pair_token1 = tok1, reserve0 = 100, reserve1 = 200 \<rparr>"

definition pair_1_weth :: pair where
  "pair_1_weth = \<lparr> pair_token0 = tok1, pair_token1 = weth, reserve0 = 175, reserve1 = 100 \<rparr>"

definition unit_price :: "currency \<Rightarrow> currency \<Rightarrow> price" where
  "unit_price b q = \<lparr> baseCurrency = b, quoteCurrency = q, price_value = 1 \<rparr>"

definition route_0_V3_1_V1_weth :: MixedRouteSDK where
  "route_0_V3_1_V1_weth =
     \<lparr> pools = [PoolV pool_0_1_medium, PairV pair_1_weth], path = [tok0, tok1, weth],
       route_input = Tok tok0, route_output = ETHER, midPrice = unit_price (Tok tok0) ETHER \<rparr>"

definition route_weth_V3_0 :: MixedRouteSDK where
  "route_weth_V3_0 =
     \<lparr> pools = [PoolV pool_0_weth], path = [weth, tok0],
       route_input = ETHER, route_output = Tok tok0, midPrice = unit_price ETHER (Tok tok0) \<rparr>"

text \<open>A venue list that does not start at the declared input: token 0 into the 1-2 pool.\<close>

definition route_0_into_1_2 :: MixedRouteSDK where
  "route_0_into_1_2 =
     \<lparr> pools = [PoolV pool_1_2_low], path = [tok0, tok1],
       route_input = Tok tok0, route_output = Tok tok1, midPrice = unit_price (Tok tok0) (Tok tok1) \<rparr>"

section \<open>Example trades\<close>

definition amount_of :: "currency \<Rightarrow> rat \<Rightarrow> CurrencyAmount" where
  "amount_of c x = \<lparr> currency = c, fraction = x \<rparr>"

text \<open>A pair route and a pool route from token 0 to token 1, and the pair route reversed.\<close>

definition route_v1_0_1 :: V1RouteSDK where
  "route_v1_0_1 =
     \<lparr> pools = [pair_0_1], path = [tok0, tok1], route_input = Tok tok0, route_output = Tok tok1,
       midPrice = \<lparr> baseCurrency = Tok tok0, quoteCurrency = Tok tok1, price_value = 2 \<rparr> \<rparr>"

definition route_v1_1_0 :: V1RouteSDK where
  "route_v1_1_0 =
     \<lparr> pools = [pair_0_1], path = [tok1, tok0], route_input = Tok tok1, route_output = Tok tok0,
       midPrice = \<lparr> baseCurrency = Tok tok1, quoteCurrency = Tok tok0, price_value = 1 / 2 \<rparr> \<rparr>"

definition route_v2_0_1 :: V2RouteSDK where
  "route_v2_0_1 =
     \<lparr> pools = [pool_0_1_medium], path = [tok0, tok1], route_input = Tok tok0,
       route_output = Tok tok1, midPrice = unit_price (Tok tok0) (Tok tok1) \<rparr>"

text \<open>The mixed route of the tests through the same pair.\<close>

definition route_0_V1_1 :: MixedRouteSDK where
  "route_0_V1_1 =
     \<lparr> pools = [PairV pair_0_1], path = [tok0, tok1], route_input = Tok tok0,
       route_output = Tok tok1,
       midPrice = \<lparr> baseCurrency = Tok tok0, quoteCurrency = Tok tok1, price_value = 2 \<rparr> \<rparr>"

text \<open>
  An exact-input trade of 100 units of token 0 for 190 of token 1 through the pair and of
  50 for 49 through the pool.
\<close>

definition split_swaps :: "swap list" where
  "split_swaps =
     [\<lparr> route = RouteV1 route_v1_0_1, inputAmount = amount_of (Tok tok0) 100,
         outputAmount = amount_of (Tok tok1) 190 \<rparr>,
      \<lparr> route = RouteV2 route_v2_0_1, inputAmount = amount_of (Tok tok0) 50,
         outputAmount = amount_of (Tok tok1) 49 \<rparr>]"

definition split_trade :: "TradeType \<Rightarrow> Trade" where
  "split_trade tt =
     \<lparr> routes = map route split_swaps, tradeType = tt, swaps = split_swaps,
       cached_inputAmount = None, cached_outputAmount = None, cached_priceImpact = None \<rparr>"







section \<open>Properties of the encoder\<close>

lemma length_hops [simp]: "length (hops t vs) = length vs"
  by (induction vs arbitrary: t) simp_all

lemma length_be_bytes [simp]: "length (be_bytes n v) = n"
  by (induction n arbitrary: v) simp_all

lemma length_address_bytes [simp]: "length (address_bytes t) = 20"
  by (simp add: address_bytes_def)

lemma length_hop_bytes [simp]: "length (hop_bytes h) = 23"
  by (cases h) simp

lemma length_concat_hop_bytes [simp]: "length (concat (map hop_bytes hs)) = 23 * length hs"
  by (induction hs) simp_all

lemma encode_step_first:
  "encode_step acc v 0 =
     \<lparr> acc_inputToken = outputToken v (acc_inputToken acc),
       acc_path = [V_address (address (acc_inputToken acc)), fee_field v,
                   V_address (address (outputToken v (acc_inputToken acc)))],
       acc_types = [T_address, T_uint 24, T_address] \<rparr>"
  by (simp add: encode_step_def Let_def)

lemma encode_step_later:
  "0 < i \<Longrightarrow> encode_step acc v i =
     \<lparr> acc_inputToken = outputToken v (acc_inputToken acc),
       acc_path = acc_path acc @ [fee_field v, V_address (address (outputToken v (acc_inputToken acc)))],
       acc_types = acc_types acc @ [T_uint 24, T_address] \<rparr>"
  by (simp add: encode_step_def Let_def)

lemma reduce_from_tail:
  "0 < i \<Longrightarrow> reduce_from encode_step i vs acc =
     \<lparr> acc_inputToken = final_token (acc_inputToken acc) vs,
       acc_path = acc_path acc @ concat (map hop_fields (hops (acc_inputToken acc) vs)),
       acc_types = acc_types acc @ concat (replicate (length vs) [T_uint 24, T_address]) \<rparr>"
proof (induction vs arbitrary: i acc)
  case Nil
  then show ?case by simp
next
  case (Cons v vs)
  have "reduce_from encode_step i (v # vs) acc = reduce_from encode_step (Suc i) vs (encode_step acc v i)"
    by simp
  also have "\<dots> = \<lparr> acc_inputToken = final_token (acc_inputToken (encode_step acc v i)) vs,
       acc_path = acc_path (encode_step acc v i) @ concat (map hop_fields (hops (acc_inputToken (encode_step acc v i)) vs)),
       acc_types = acc_types (encode_step acc v i) @ concat (replicate (length vs) [T_uint 24, T_address]) \<rparr>"
    by (rule Cons.IH) simp
  finally show ?case
    by (simp add: encode_step_later [OF Cons.prems])
qed

lemma encode_fields_Cons:
  "pools r = v # vs \<Longrightarrow>
   encode_fields r =
     \<lparr> acc_inputToken = final_token (wrapped (route_input r)) (v # vs),
       acc_path = V_address (address (wrapped (route_input r)))
                  # concat (map hop_fields (hops (wrapped (route_input r)) (v # vs))),
       acc_types = T_address # concat (replicate (length (v # vs)) [T_uint 24, T_address]) \<rparr>"
  by (simp add: encode_fields_def Let_def reduce_from_tail encode_step_first)

lemma fee_number_lt: "fee_number v < 16777216"
proof (cases v)
  case (PoolV p)
  then show ?thesis by (cases "fee p") simp_all
next
  case (PairV p)
  then show ?thesis by (simp add: V1_FEE_PATH_PLACEHOLDER_def)
qed

lemma fee_field_number: "fee_field v = V_number (fee_number v)"
  by (cases v) (simp_all add: fee_field_def)

lemma tight_hops:
  "tight (concat (replicate (length hs) [T_uint 24, T_address])) (concat (map hop_fields hs))
     = Inr (concat (map hop_bytes hs))"
proof (induction hs)
  case Nil
  then show ?case by simp
next
  case (Cons h hs)
  obtain v t where h: "h = (v, t)" by (cases h)
  show ?case using Cons.IH
    by (simp add: h fee_field_number fee_number_lt address_bytes_def)
qed

lemma length_fields_hops:
  "length (concat (map hop_fields (hops t vs))) = length (concat (replicate (length vs) [T_uint 24, T_address]))"
  by (induction vs arbitrary: t) simp_all

lemma encode_bytes:
  assumes "pools r \<noteq> []"
  shows "encodeMixedRouteToPath r =
     Inr (hexlify (address_bytes (wrapped (route_input r))
                   @ concat (map hop_bytes (hops (wrapped (route_input r)) (pools r)))))"
proof -
  from assms obtain v vs where vs: "pools r = v # vs"
    by (cases "pools r") auto
  show ?thesis
    unfolding encodeMixedRouteToPath_def Let_def encode_fields_Cons [OF vs] pack_def
    using tight_hops [of "hops (wrapped (route_input r)) (v # vs)"]
      length_fields_hops [of "wrapped (route_input r)" "v # vs"]
    by (simp add: vs address_bytes_def)
qed

lemma encode_empty: "pools r = [] \<Longrightarrow> encodeMixedRouteToPath r = Inr ''0x''"
  by (simp add: encodeMixedRouteToPath_def encode_fields_def pack_def hexlify_def)

lemma length_hexlify: "length (hexlify bs) = 2 + 2 * length bs"
  by (induction bs) (simp_all add: hexlify_def hex_byte_def)

text \<open>
  C1. For every r with N venues, N at least 1, the encoder emits N+1 address fields
  interleaved with N fee fields: one address, then one (fee, address) pair for each venue.
  The packed path has (N+1) * 20 + N * 3 bytes, written as two hex digits each after the
  marker.
\<close>

theorem encoded_path_layout:
  assumes "pools r \<noteq> []"
  shows "acc_types (encode_fields r)
           = T_address # concat (replicate (length (pools r)) [T_uint 24, T_address])
       \<and> length (acc_path (encode_fields r)) = length (acc_types (encode_fields r))
       \<and> (\<exists>bs. encodeMixedRouteToPath r = Inr (hexlify bs)
              \<and> length bs = (length (pools r) + 1) * 20 + length (pools r) * 3
              \<and> length (hexlify bs) = 2 + 2 * length bs)"
proof -
  from assms obtain v vs where vs: "pools r = v # vs"
    by (cases "pools r") auto
  have types: "acc_types (encode_fields r)
      = T_address # concat (replicate (length (pools r)) [T_uint 24, T_address])"
    by (simp add: encode_fields_Cons [OF vs] vs)
  have lens: "length (acc_path (encode_fields r)) = length (acc_types (encode_fields r))"
    using length_fields_hops [of "wrapped (route_input r)" "v # vs"]
    by (simp add: encode_fields_Cons [OF vs])
  let ?bs = "address_bytes (wrapped (route_input r))
             @ concat (map hop_bytes (hops (wrapped (route_input r)) (pools r)))"
  have "encodeMixedRouteToPath r = Inr (hexlify ?bs)"
    by (rule encode_bytes [OF assms])
  moreover have "length ?bs = (length (pools r) + 1) * 20 + length (pools r) * 3"
    by simp
  ultimately have "\<exists>bs. encodeMixedRouteToPath r = Inr (hexlify bs)
              \<and> length bs = (length (pools r) + 1) * 20 + length (pools r) * 3
              \<and> length (hexlify bs) = 2 + 2 * length bs"
    using length_hexlify by blast
  with types lens show ?thesis by blast
qed

theorem encoded_path_layout_witness:
  "pools route_0_V3_1_V1_weth \<noteq> []
   \<and> acc_types (encode_fields route_0_V3_1_V1_weth)
       = [T_address, T_uint 24, T_address, T_uint 24, T_address]
   \<and> (\<exists>bs. encodeMixedRouteToPath route_0_V3_1_V1_weth = Inr (hexlify bs) \<and> length bs = 66)"
proof -
  have ne: "pools route_0_V3_1_V1_weth \<noteq> []"
    by (simp add: route_0_V3_1_V1_weth_def)
  have len: "length (pools route_0_V3_1_V1_weth) = 2"
    by (simp add: route_0_V3_1_V1_weth_def)
  from encoded_path_layout [OF ne] show ?thesis
    unfolding len using ne by (auto simp add: numeral_2_eq_2)
qed

subsection \<open>Evaluating the packed bytes of concrete tokens\<close>

lemma be_bytes_numeral:
  "be_bytes (numeral k) v = be_bytes (pred_numeral k) (v div 256) @ [of_nat (v mod 256)]"
  by (subst numeral_eq_Suc) simp

lemmas hex_eval = hexlify_def hex_byte_def hex_digit_def address_bytes_def be_bytes_numeral

lemmas test_tokens = tok0_def tok1_def tok2_def weth_def ETHER_def

lemma Token_equals_sym: "Token_equals a b \<longleftrightarrow> Token_equals b a"
  by (auto simp add: Token_equals_def)

lemma fee_bytes_medium: "be_bytes 3 3000 = [0x00, 0x0B, 0xB8]"
  by (simp add: be_bytes_numeral)

lemma fee_bytes_placeholder: "be_bytes 3 V1_FEE_PATH_PLACEHOLDER = [0x80, 0x00, 0x00]"
  by (simp add: be_bytes_numeral V1_FEE_PATH_PLACEHOLDER_def)

text \<open>
  C2. A two-venue route from token A through a pool with fee tier 3000 to token B and
  through a pair to token C is encoded as the 20 address bytes of A, the three bytes
  00 0b b8, the address bytes of B, the three bytes 80 00 00 of the sentinel and the
  address bytes of C, in this order and with nothing between them. The two venues may
  hold their tokens in either order.
\<close>

theorem pool_then_pair_path:
  assumes "\<not> Token_equals A B" and "\<not> Token_equals B C"
    and "(pool_token0 p = A \<and> pool_token1 p = B) \<or> (pool_token0 p = B \<and> pool_token1 p = A)"
    and "fee p = MEDIUM"
    and "(pair_token0 q = B \<and> pair_token1 q = C) \<or> (pair_token0 q = C \<and> pair_token1 q = B)"
    and "pools r = [PoolV p, PairV q]"
    and "wrapped (route_input r) = A"
  shows "encodeMixedRouteToPath r =
           Inr (hexlify (address_bytes A @ [0x00, 0x0B, 0xB8] @ address_bytes B
                         @ [0x80, 0x00, 0x00] @ address_bytes C))"
proof -
  have ne: "pools r \<noteq> []"
    using assms(6) by simp
  have BA: "\<not> Token_equals B A" and CB: "\<not> Token_equals C B"
    using assms(1,2) Token_equals_sym by blast+
  have AA: "Token_equals A A" and BB: "Token_equals B B"
    by (simp_all add: Token_equals_def)
  have o1: "outputToken (PoolV p) A = B"
    using assms(3) AA BA by (auto simp add: outputToken_def)
  have o2: "outputToken (PairV q) B = C"
    using assms(5) BB CB by (auto simp add: outputToken_def)
  have hs: "hops A [PoolV p, PairV q] = [(PoolV p, B), (PairV q, C)]"
    by (simp add: o1 o2)
  show ?thesis
    unfolding encode_bytes [OF ne] assms(6,7) hs
    by (simp add: assms(4) fee_bytes_medium fee_bytes_placeholder)
qed

theorem pool_then_pair_path_witness:
  "encodeMixedRouteToPath route_0_V3_1_V1_weth =
     Inr ''0x0000000000000000000000000000000000000001000bb800000000000000000000000000000000000000028000004200000000000000000000000000000000000006''"
proof -
  have h1: "\<not> Token_equals tok0 tok1" and h2: "\<not> Token_equals tok1 weth"
    by (simp_all add: Token_equals_def test_tokens)
  have h3: "(pool_token0 pool_0_1_medium = tok0 \<and> pool_token1 pool_0_1_medium = tok1)
          \<or> (pool_token0 pool_0_1_medium = tok1 \<and> pool_token1 pool_0_1_medium = tok0)"
    and h4: "fee pool_0_1_medium = MEDIUM"
    by (simp_all add: pool_0_1_medium_def)
  have h5: "(pair_token0 pair_1_weth = tok1 \<and> pair_token1 pair_1_weth = weth)
          \<or> (pair_token0 pair_1_weth = weth \<and> pair_token1 pair_1_weth = tok1)"
    by (simp add: pair_1_weth_def)
  have h6: "pools route_0_V3_1_V1_weth = [PoolV pool_0_1_medium, PairV pair_1_weth]"
    and h7: "wrapped (route_input route_0_V3_1_V1_weth) = tok0"
    by (simp_all add: route_0_V3_1_V1_weth_def)
  show ?thesis
    unfolding pool_then_pair_path [OF h1 h2 h3 h4 h5 h6 h7]
    by (simp add: hex_eval test_tokens)
qed

subsection \<open>The endpoints of an encoded path\<close>

text \<open>
  Whatever the venues, a path of at least one venue starts with the address of the
  wrapped input currency: the encoder reads \<open>route.input.wrapped\<close> first.
\<close>

lemma encoded_path_starts_at_wrapped_input:
  assumes "pools r \<noteq> []"
  shows "\<exists>bs. encodeMixedRouteToPath r = Inr (hexlify bs)
            \<and> take 20 bs = address_bytes (wrapped (route_input r))"
  using encode_bytes [OF assms] by (intro exI [of _ "address_bytes (wrapped (route_input r))
      @ concat (map hop_bytes (hops (wrapped (route_input r)) (pools r)))"]) simp

lemma Token_equals_refl [simp]: "Token_equals a a"
  by (simp add: Token_equals_def)

lemma Token_equals_address: "Token_equals a b \<Longrightarrow> address_bytes a = address_bytes b"
  by (simp add: Token_equals_def address_bytes_def)

lemma hops_eq_Nil [simp]: "hops t vs = [] \<longleftrightarrow> vs = []"
  by (cases vs) simp_all

lemma last_hops: "vs \<noteq> [] \<Longrightarrow> snd (last (hops t vs)) = final_token t vs"
  by (induction vs arbitrary: t) simp_all

lemma drop_concat_hop_bytes:
  "hs \<noteq> [] \<Longrightarrow>
   drop (length (pre @ concat (map hop_bytes hs)) - 20) (pre @ concat (map hop_bytes hs))
     = address_bytes (snd (last hs))"
proof (induction hs arbitrary: pre)
  case Nil
  then show ?case by simp
next
  case (Cons h hs)
  obtain v t where h: "h = (v, t)" by (cases h)
  show ?case
  proof (cases "hs = []")
    case True
    then show ?thesis by (simp add: h)
  next
    case False
    have "pre @ concat (map hop_bytes (h # hs)) = (pre @ hop_bytes h) @ concat (map hop_bytes hs)"
      by simp
    then show ?thesis
      using Cons.IH [OF False, of "pre @ hop_bytes h"] False by simp
  qed
qed

text \<open>On a contiguous chain the encoder's token choice follows the route's token path.\<close>

lemma tokenPath_final:
  "tokenPath_from t vs = Inr ts \<Longrightarrow> last ts = final_token t vs"
proof (induction vs arbitrary: t ts)
  case Nil
  then show ?case by auto
next
  case (Cons v vs)
  show ?case
  proof (cases "Token_equals t (token0 v)")
    case True
    then have o: "outputToken v t = token1 v"
      using Token_equals_sym by (simp add: outputToken_def)
    from Cons.prems True obtain ts' where ts': "tokenPath_from (token1 v) vs = Inr ts'" "ts = t # ts'"
      by (auto split: sum.splits)
    have "ts' \<noteq> []"
      using ts'(1) by (cases vs) (auto split: sum.splits if_splits)
    then show ?thesis
      using Cons.IH [OF ts'(1)] ts'(2) o by simp
  next
    case False
    then have o: "outputToken v t = token0 v"
      using Token_equals_sym by (simp add: outputToken_def)
    from Cons.prems False obtain ts' where ts': "tokenPath_from (token0 v) vs = Inr ts'" "ts = t # ts'"
      by (auto split: sum.splits if_splits)
    have "ts' \<noteq> []"
      using ts'(1) by (cases vs) (auto split: sum.splits if_splits)
    then show ?thesis
      using Cons.IH [OF ts'(1)] ts'(2) o by simp
  qed
qed

text \<open>
  C7. For a route built by the route constructor, the encoded path starts with the
  address of the wrapped form of the declared input currency and ends with the address of
  the wrapped form of the declared output currency. For a native currency the wrapped
  form is its wrapped token, so the address written is that token's; a path field is
  never anything but a token address or a fee.
\<close>

theorem wrapped_endpoints:
  assumes "MixedRouteSDK_new ps inp out mid = Inr r"
  shows "\<exists>bs. encodeMixedRouteToPath r = Inr (hexlify bs)
            \<and> take 20 bs = address_bytes (wrapped inp)
            \<and> drop (length bs - 20) bs = address_bytes (wrapped out)
            \<and> wrapped (NativeCurrency c w) = w"
proof -
  from assms have ne: "ps \<noteq> []"
    by (auto simp add: MixedRouteSDK_new_def split: if_splits)
  from assms ne obtain ts where ts: "tokenPath_from (wrapped inp) ps = Inr ts"
    and eq: "Token_equals (last ts) (wrapped out)"
    and r: "r = \<lparr> pools = ps, path = ts, route_input = inp, route_output = out, midPrice = mid \<rparr>"
    by (auto simp add: MixedRouteSDK_new_def split: if_splits sum.splits)
  let ?hs = "hops (wrapped inp) ps"
  let ?bs = "address_bytes (wrapped inp) @ concat (map hop_bytes ?hs)"
  have enc: "encodeMixedRouteToPath r = Inr (hexlify ?bs)"
    using encode_bytes [of r] ne by (simp add: r)
  have first: "take 20 ?bs = address_bytes (wrapped inp)"
    by simp
  have "drop (length ?bs - 20) ?bs = address_bytes (snd (last ?hs))"
    by (rule drop_concat_hop_bytes) (simp add: ne)
  also have "\<dots> = address_bytes (final_token (wrapped inp) ps)"
    by (simp add: last_hops [OF ne])
  also have "\<dots> = address_bytes (wrapped out)"
    using tokenPath_final [OF ts] eq Token_equals_address by simp
  finally have lst: "drop (length ?bs - 20) ?bs = address_bytes (wrapped out)" .
  from enc first lst show ?thesis
    by (intro exI [of _ ?bs]) simp
qed

theorem wrapped_endpoints_witness:
  "MixedRouteSDK_new [PoolV pool_0_weth] ETHER (Tok tok0) (unit_price ETHER (Tok tok0))
     = Inr route_weth_V3_0
   \<and> isNative ETHER
   \<and> (\<exists>bs. encodeMixedRouteToPath route_weth_V3_0 = Inr (hexlify bs)
          \<and> take 20 bs = [0x42, 0, 0, 0, 0, 0, 0, 0, 0, 0, 0, 0, 0, 0, 0, 0, 0, 0, 0, 0x06]
          \<and> drop (length bs - 20) bs = [0, 0, 0, 0, 0, 0, 0, 0, 0, 0, 0, 0, 0, 0, 0, 0, 0, 0, 0, 0x01])
   \<and> encodeMixedRouteToPath route_weth_V3_0 =
       Inr ''0x4200000000000000000000000000000000000006000bb80000000000000000000000000000000000000001''"
proof -
  have c: "MixedRouteSDK_new [PoolV pool_0_weth] ETHER (Tok tok0) (unit_price ETHER (Tok tok0))
     = Inr route_weth_V3_0"
    by (simp add: MixedRouteSDK_new_def route_weth_V3_0_def pool_0_weth_def ETHER_def Token_equals_def
        tok0_def weth_def)
  have w: "address_bytes (wrapped ETHER)
       = [0x42, 0, 0, 0, 0, 0, 0, 0, 0, 0, 0, 0, 0, 0, 0, 0, 0, 0, 0, 0x06]"
    and w0: "address_bytes (wrapped (Tok tok0))
       = [0, 0, 0, 0, 0, 0, 0, 0, 0, 0, 0, 0, 0, 0, 0, 0, 0, 0, 0, 0x01]"
    by (simp_all add: hex_eval test_tokens)
  have ex: "\<exists>bs. encodeMixedRouteToPath route_weth_V3_0 = Inr (hexlify bs)
          \<and> take 20 bs = [0x42, 0, 0, 0, 0, 0, 0, 0, 0, 0, 0, 0, 0, 0, 0, 0, 0, 0, 0, 0x06]
          \<and> drop (length bs - 20) bs = [0, 0, 0, 0, 0, 0, 0, 0, 0, 0, 0, 0, 0, 0, 0, 0, 0, 0, 0, 0x01]"
    using wrapped_endpoints [OF c, of 570 weth] unfolding w w0 by blast
  have e: "encodeMixedRouteToPath route_weth_V3_0 =
       Inr ''0x4200000000000000000000000000000000000006000bb80000000000000000000000000000000000000001''"
    unfolding encode_bytes [of route_weth_V3_0, simplified route_weth_V3_0_def, simplified, folded route_weth_V3_0_def]
    by (simp add: outputToken_def Token_equals_def pool_0_weth_def hex_eval test_tokens)
  from c ex e show ?thesis
    by (simp add: ETHER_def)
qed

subsection \<open>The output token of a venue\<close>

lemma encode_total: "\<exists>s. encodeMixedRouteToPath r = Inr s"
proof (cases "pools r = []")
  case True
  then show ?thesis by (simp add: encode_empty)
next
  case False
  then show ?thesis by (simp add: encode_bytes)
qed

text \<open>
  C8, as the claim states it, fails: given a venue neither of whose tokens is the
  current input token the encoder does not fail. It takes the venue's first token as the
  output token and returns a path. Here token 0 is sent into the pool of tokens 1 and 2.
\<close>

theorem encoder_accepts_broken_chain:
  "\<not> Token_equals (token0 (PoolV pool_1_2_low)) (wrapped (route_input route_0_into_1_2))
   \<and> \<not> Token_equals (token1 (PoolV pool_1_2_low)) (wrapped (route_input route_0_into_1_2))
   \<and> pools route_0_into_1_2 = [PoolV pool_1_2_low]
   \<and> encodeMixedRouteToPath route_0_into_1_2 =
        Inr ''0x00000000000000000000000000000000000000010001f40000000000000000000000000000000000000002''"
proof -
  have a: "\<not> Token_equals (token0 (PoolV pool_1_2_low)) (wrapped (route_input route_0_into_1_2))"
    and b: "\<not> Token_equals (token1 (PoolV pool_1_2_low)) (wrapped (route_input route_0_into_1_2))"
    and c: "pools route_0_into_1_2 = [PoolV pool_1_2_low]"
    by (simp_all add: route_0_into_1_2_def pool_1_2_low_def Token_equals_def test_tokens)
  have ne: "pools route_0_into_1_2 \<noteq> []"
    by (simp add: c)
  have "encodeMixedRouteToPath route_0_into_1_2 =
        Inr ''0x00000000000000000000000000000000000000010001f40000000000000000000000000000000000000002''"
    unfolding encode_bytes [OF ne] c
    by (simp add: route_0_into_1_2_def outputToken_def Token_equals_def pool_1_2_low_def hex_eval test_tokens)
  with a b c show ?thesis by blast
qed

text \<open>
  C8, amended. For each venue in order the output token is the venue's second token when
  its first token equals the current input token, and its first token otherwise. When the
  current input token is one of the venue's two distinct tokens this is the other one.
  The encoder has no failing branch: it returns a path for every route, with one
  (fee, output token address) pair for every venue in order.
\<close>

theorem output_token_selection:
  "(\<exists>s. encodeMixedRouteToPath r = Inr s)
   \<and> (pools r \<noteq> [] \<longrightarrow>
        acc_path (encode_fields r)
          = V_address (address (wrapped (route_input r)))
            # concat (map hop_fields (hops (wrapped (route_input r)) (pools r))))
   \<and> hops t (v # vs) = (v, outputToken v t) # hops (outputToken v t) vs
   \<and> outputToken v t = (if Token_equals (token0 v) t then token1 v else token0 v)
   \<and> (\<not> Token_equals (token0 v) (token1 v) \<and> Token_equals (token0 v) t
        \<longrightarrow> outputToken v t = token1 v \<and> \<not> Token_equals (outputToken v t) t)
   \<and> (\<not> Token_equals (token0 v) (token1 v) \<and> Token_equals (token1 v) t
        \<longrightarrow> outputToken v t = token0 v \<and> \<not> Token_equals (outputToken v t) t)"
proof -
  have fields: "pools r \<noteq> [] \<longrightarrow>
        acc_path (encode_fields r)
          = V_address (address (wrapped (route_input r)))
            # concat (map hop_fields (hops (wrapped (route_input r)) (pools r)))"
  proof
    assume "pools r \<noteq> []"
    then obtain u us where us: "pools r = u # us"
      by (cases "pools r") auto
    show "acc_path (encode_fields r)
          = V_address (address (wrapped (route_input r)))
            # concat (map hop_fields (hops (wrapped (route_input r)) (pools r)))"
      by (simp add: encode_fields_Cons [OF us] us)
  qed
  have first: "\<not> Token_equals (token0 v) (token1 v) \<and> Token_equals (token0 v) t
        \<longrightarrow> outputToken v t = token1 v \<and> \<not> Token_equals (outputToken v t) t"
    by (auto simp add: outputToken_def Token_equals_def)
  have second: "\<not> Token_equals (token0 v) (token1 v) \<and> Token_equals (token1 v) t
        \<longrightarrow> outputToken v t = token0 v \<and> \<not> Token_equals (outputToken v t) t"
    by (auto simp add: outputToken_def Token_equals_def)
  have hp: "hops t (v # vs) = (v, outputToken v t) # hops (outputToken v t) vs"
    by simp
  have df: "outputToken v t = (if Token_equals (token0 v) t then token1 v else token0 v)"
    by (simp add: outputToken_def)
  from encode_total [of r] fields hp df first second show ?thesis
    by blast
qed

theorem output_token_selection_witness:
  "(\<exists>s. encodeMixedRouteToPath route_0_V3_1_V1_weth = Inr s)
   \<and> pools route_0_V3_1_V1_weth \<noteq> []
   \<and> acc_path (encode_fields route_0_V3_1_V1_weth)
       = V_address (address tok0) # concat (map hop_fields (hops tok0 (pools route_0_V3_1_V1_weth)))
   \<and> \<not> Token_equals (token0 (PairV pair_1_weth)) (token1 (PairV pair_1_weth))
   \<and> Token_equals (token0 (PairV pair_1_weth)) tok1
   \<and> outputToken (PairV pair_1_weth) tok1 = weth
   \<and> Token_equals (token1 (PairV pair_1_weth)) weth
   \<and> outputToken (PairV pair_1_weth) weth = tok1"
proof -
  have ne: "pools route_0_V3_1_V1_weth \<noteq> []"
    and inp: "wrapped (route_input route_0_V3_1_V1_weth) = tok0"
    by (simp_all add: route_0_V3_1_V1_weth_def)
  have d: "\<not> Token_equals (token0 (PairV pair_1_weth)) (token1 (PairV pair_1_weth))"
    and e0: "Token_equals (token0 (PairV pair_1_weth)) tok1"
    and e1: "Token_equals (token1 (PairV pair_1_weth)) weth"
    by (simp_all add: pair_1_weth_def Token_equals_def test_tokens)
  have t0: "token0 (PairV pair_1_weth) = tok1" and t1: "token1 (PairV pair_1_weth) = weth"
    by (simp_all add: pair_1_weth_def)
  note th1 = output_token_selection [of route_0_V3_1_V1_weth tok1 "PairV pair_1_weth" "[]"]
  note th2 = output_token_selection [of route_0_V3_1_V1_weth weth "PairV pair_1_weth" "[]"]
  from th1 ne have p: "acc_path (encode_fields route_0_V3_1_V1_weth)
       = V_address (address tok0) # concat (map hop_fields (hops tok0 (pools route_0_V3_1_V1_weth)))"
    unfolding inp by blast
  from th1 d e0 have a: "outputToken (PairV pair_1_weth) tok1 = weth"
    unfolding t1 by blast
  from th2 d e1 have b: "outputToken (PairV pair_1_weth) weth = tok1"
    unfolding t0 by blast
  from th1 have "\<exists>s. encodeMixedRouteToPath route_0_V3_1_V1_weth = Inr s"
    by blast
  with ne p d e0 e1 a b show ?thesis
    by blast
qed

section \<open>Properties of trade construction\<close>

lemma Trade_swaps_empty:
  "Trade_swaps v1 v2 mx = [] \<longleftrightarrow> v1 = [] \<and> v2 = [] \<and> (mx = None \<or> mx = Some [])"
  by (cases mx) (auto simp add: Trade_swaps_def)

lemma numPools_length: "numPools ss = length (all_venues ss)"
proof -
  have "foldl (\<lambda>total cur. total + cur) a ns = a + sum_list ns" for a :: nat and ns
    by (induction ns arbitrary: a) simp_all
  then show ?thesis
    by (simp add: numPools_def all_venues_def length_concat comp_def)
qed

lemma foldl_insert_venues:
  "foldl (\<lambda>S pool. insert (venue_getAddress pool) S) S vs = S \<union> set (map venue_getAddress vs)"
  by (induction vs arbitrary: S) auto

lemma poolAddressSet_set: "poolAddressSet ss = set (map venue_getAddress (all_venues ss))"
proof -
  have "foldl (\<lambda>S s. foldl (\<lambda>S pool. insert (venue_getAddress pool) S) S (pools (route s))) S ss
          = S \<union> set (map venue_getAddress (all_venues ss))" for S
    by (induction ss arbitrary: S) (auto simp add: all_venues_def foldl_insert_venues)
  then show ?thesis
    by (simp add: poolAddressSet_def)
qed

lemma pools_unique_distinct:
  "numPools ss = card (poolAddressSet ss) \<longleftrightarrow> distinct (map venue_getAddress (all_venues ss))"
proof
  assume "numPools ss = card (poolAddressSet ss)"
  then have "card (set (map venue_getAddress (all_venues ss))) = length (map venue_getAddress (all_venues ss))"
    by (simp add: numPools_length poolAddressSet_set)
  then show "distinct (map venue_getAddress (all_venues ss))"
    by (rule card_distinct)
next
  assume "distinct (map venue_getAddress (all_venues ss))"
  then have "card (set (map venue_getAddress (all_venues ss))) = length (map venue_getAddress (all_venues ss))"
    by (rule distinct_card)
  then show "numPools ss = card (poolAddressSet ss)"
    by (simp add: numPools_length poolAddressSet_set)
qed

text \<open>The constructor, check by check.\<close>

lemma Trade_new_cases:
  "Trade_new v1 v2 tt mx =
     (let ss = Trade_swaps v1 v2 mx in
      if ss = [] then Inl TypeError
      else if \<not> input_currency_match ss then Inl INPUT_CURRENCY_MATCH
      else if \<not> output_currency_match ss then Inl OUTPUT_CURRENCY_MATCH
      else if distinct (map venue_getAddress (all_venues ss))
      then Inr \<lparr> routes = map route ss, tradeType = tt, swaps = ss,
                 cached_inputAmount = None, cached_outputAmount = None,
                 cached_priceImpact = None \<rparr>
      else Inl POOLS_DUPLICATED)"
  by (cases "Trade_swaps v1 v2 mx")
    (simp_all add: Trade_new_def Let_def input_currency_match_def output_currency_match_def
      pools_unique_distinct)

lemma Trade_new_Inr:
  assumes "Trade_new v1 v2 tt mx = Inr t"
  shows "t = \<lparr> routes = map route (Trade_swaps v1 v2 mx), tradeType = tt,
               swaps = Trade_swaps v1 v2 mx,
               cached_inputAmount = None, cached_outputAmount = None, cached_priceImpact = None \<rparr>"
    and "Trade_swaps v1 v2 mx \<noteq> []"
    and "input_currency_match (Trade_swaps v1 v2 mx)"
    and "output_currency_match (Trade_swaps v1 v2 mx)"
    and "distinct (map venue_getAddress (all_venues (Trade_swaps v1 v2 mx)))"
  using assms unfolding Trade_new_cases Let_def by (auto split: if_splits)

text \<open>Evaluating the example trade.\<close>

lemmas test_routes = route_v1_0_1_def route_v1_1_0_def route_v2_0_1_def route_0_V1_1_def
  RouteV1_def RouteV2_def MixedRoute_def pair_0_1_def pool_0_1_medium_def unit_price_def amount_of_def

lemma split_trade_new:
  "Trade_new [(route_v1_0_1, amount_of (Tok tok0) 100, amount_of (Tok tok1) 190)]
             [(route_v2_0_1, amount_of (Tok tok0) 50, amount_of (Tok tok1) 49)] tt None
     = Inr (split_trade tt)"
  unfolding Trade_new_cases
  by (simp add: Trade_swaps_def split_trade_def split_swaps_def input_currency_match_def
      output_currency_match_def all_venues_def Pool_getAddress_def Pair_getAddress_def
      Token_equals_def test_routes)

text \<open>
  C9. A trade built from no routes in any of the three groups is never constructed:
  reading the first swap of the empty swap list fails with a type error, before any
  invariant is checked, and this is the only way the constructor gives a type error. Every
  trade that is constructed has a first swap, so its two amount getters return.
\<close>

theorem empty_trade_fails:
  "Trade_new [] [] tt None = Inl TypeError
   \<and> Trade_new [] [] tt (Some []) = Inl TypeError
   \<and> (Trade_new v1 v2 tt mx = Inl TypeError
        \<longleftrightarrow> v1 = [] \<and> v2 = [] \<and> (mx = None \<or> mx = Some []))
   \<and> TypeError \<notin> {INPUT_CURRENCY_MATCH, OUTPUT_CURRENCY_MATCH, POOLS_DUPLICATED}
   \<and> (\<forall>t. Trade_new v1 v2 tt mx = Inr t \<longrightarrow>
         swaps t \<noteq> []
         \<and> (\<exists>a t'. Trade_inputAmount t = Inr (a, t'))
         \<and> (\<exists>a t'. Trade_outputAmount t = Inr (a, t')))"
proof -
  have e1: "Trade_new [] [] tt None = Inl TypeError"
    and e2: "Trade_new [] [] tt (Some []) = Inl TypeError"
    by (simp_all add: Trade_new_def Trade_swaps_def)
  have iff: "Trade_new v1 v2 tt mx = Inl TypeError
        \<longleftrightarrow> v1 = [] \<and> v2 = [] \<and> (mx = None \<or> mx = Some [])"
    unfolding Trade_new_cases Let_def Trade_swaps_empty [symmetric] by simp
  have built: "swaps t \<noteq> []
         \<and> (\<exists>a t'. Trade_inputAmount t = Inr (a, t'))
         \<and> (\<exists>a t'. Trade_outputAmount t = Inr (a, t'))"
    if "Trade_new v1 v2 tt mx = Inr t" for t
  proof -
    from Trade_new_Inr(1,2) [OF that] obtain s0 rest where
      "swaps t = s0 # rest" "cached_inputAmount t = None" "cached_outputAmount t = None"
      by (cases "Trade_swaps v1 v2 mx") auto
    then show ?thesis
      by (simp add: Trade_inputAmount_def Trade_outputAmount_def Let_def)
  qed
  from e1 e2 iff built show ?thesis
    by simp
qed

theorem empty_trade_fails_witness:
  "Trade_new [] [] EXACT_INPUT None = Inl TypeError
   \<and> Trade_new [(route_v1_0_1, amount_of (Tok tok0) 100, amount_of (Tok tok1) 190)]
               [(route_v2_0_1, amount_of (Tok tok0) 50, amount_of (Tok tok1) 49)] EXACT_INPUT None
       = Inr (split_trade EXACT_INPUT)
   \<and> swaps (split_trade EXACT_INPUT) \<noteq> []
   \<and> (\<exists>a t'. Trade_inputAmount (split_trade EXACT_INPUT) = Inr (a, t'))
   \<and> (\<exists>a t'. Trade_outputAmount (split_trade EXACT_INPUT) = Inr (a, t'))"
  using empty_trade_fails [of EXACT_INPUT
      "[(route_v1_0_1, amount_of (Tok tok0) 100, amount_of (Tok tok1) 190)]"
      "[(route_v2_0_1, amount_of (Tok tok0) 50, amount_of (Tok tok1) 49)]" None]
    split_trade_new [of EXACT_INPUT]
  by blast

subsection \<open>The duplicate-venue check\<close>

text \<open>
  C4, as the claim states it, fails: the currency checks run first. Two pair routes
  through the same pair in opposite directions repeat a venue, and the constructor fails
  with the input-currency condition, not with the duplicate-venue condition.
\<close>

theorem duplicate_venue_behind_currency_check:
  "\<not> distinct (map venue_getAddress (all_venues (Trade_swaps
        [(route_v1_0_1, amount_of (Tok tok0) 100, amount_of (Tok tok1) 190),
         (route_v1_1_0, amount_of (Tok tok1) 10, amount_of (Tok tok0) 4)] [] None)))
   \<and> Trade_new [(route_v1_0_1, amount_of (Tok tok0) 100, amount_of (Tok tok1) 190),
                (route_v1_1_0, amount_of (Tok tok1) 10, amount_of (Tok tok0) 4)] []
               EXACT_INPUT None
       = Inl INPUT_CURRENCY_MATCH"
  unfolding Trade_new_cases
  by (simp add: Trade_swaps_def input_currency_match_def all_venues_def Token_equals_def
      test_routes test_tokens)

text \<open>
  C4, amended. The constructor fails with the duplicate-venue condition exactly when the
  swap list is not empty, both currency checks pass and some venue identifier occurs more
  than once among the venues of all swaps, whatever protocol group they came from. A
  trade with a repeated venue is never constructed, and when no venue repeats the
  constructor does not fail with this condition. Two venues have the same identifier
  exactly when both are pairs with the same two token addresses or both are pools with
  the same two token addresses and the same fee tier.
\<close>

theorem duplicate_venue_check:
  "(Trade_new v1 v2 tt mx = Inl POOLS_DUPLICATED
      \<longleftrightarrow> Trade_swaps v1 v2 mx \<noteq> []
          \<and> input_currency_match (Trade_swaps v1 v2 mx)
          \<and> output_currency_match (Trade_swaps v1 v2 mx)
          \<and> \<not> distinct (map venue_getAddress (all_venues (Trade_swaps v1 v2 mx))))
   \<and> (\<not> distinct (map venue_getAddress (all_venues (Trade_swaps v1 v2 mx)))
        \<longrightarrow> (\<exists>e. Trade_new v1 v2 tt mx = Inl e))
   \<and> (distinct (map venue_getAddress (all_venues (Trade_swaps v1 v2 mx)))
        \<longrightarrow> Trade_new v1 v2 tt mx \<noteq> Inl POOLS_DUPLICATED)
   \<and> all_venues (Trade_swaps v1 v2 mx)
        = concat (map (\<lambda>x. map PairV (pools (fst x))) v1)
          @ concat (map (\<lambda>x. map PoolV (pools (fst x))) v2)
          @ concat (map (\<lambda>x. pools (fst x)) (case mx of None \<Rightarrow> [] | Some ms \<Rightarrow> ms))
   \<and> (venue_getAddress (PairV p) = venue_getAddress (PairV p')
        \<longleftrightarrow> address (pair_token0 p) = address (pair_token0 p')
            \<and> address (pair_token1 p) = address (pair_token1 p'))
   \<and> (venue_getAddress (PoolV q) = venue_getAddress (PoolV q')
        \<longleftrightarrow> address (pool_token0 q) = address (pool_token0 q')
            \<and> address (pool_token1 q) = address (pool_token1 q') \<and> fee q = fee q')
   \<and> venue_getAddress (PairV p) \<noteq> venue_getAddress (PoolV q)"
proof -
  have venues: "all_venues (Trade_swaps v1 v2 mx)
        = concat (map (\<lambda>x. map PairV (pools (fst x))) v1)
          @ concat (map (\<lambda>x. map PoolV (pools (fst x))) v2)
          @ concat (map (\<lambda>x. pools (fst x)) (case mx of None \<Rightarrow> [] | Some ms \<Rightarrow> ms))"
    by (cases mx)
      (simp_all add: all_venues_def Trade_swaps_def comp_def case_prod_beta RouteV1_def RouteV2_def
        MixedRoute_def)
  have ids: "(venue_getAddress (PairV p) = venue_getAddress (PairV p')
        \<longleftrightarrow> address (pair_token0 p) = address (pair_token0 p')
            \<and> address (pair_token1 p) = address (pair_token1 p'))"
    "(venue_getAddress (PoolV q) = venue_getAddress (PoolV q')
        \<longleftrightarrow> address (pool_token0 q) = address (pool_token0 q')
            \<and> address (pool_token1 q) = address (pool_token1 q') \<and> fee q = fee q')"
    "venue_getAddress (PairV p) \<noteq> venue_getAddress (PoolV q)"
    by (simp_all add: Pool_getAddress_def Pair_getAddress_def)
  have dup: "Trade_new v1 v2 tt mx = Inl POOLS_DUPLICATED
      \<longleftrightarrow> Trade_swaps v1 v2 mx \<noteq> []
          \<and> input_currency_match (Trade_swaps v1 v2 mx)
          \<and> output_currency_match (Trade_swaps v1 v2 mx)
          \<and> \<not> distinct (map venue_getAddress (all_venues (Trade_swaps v1 v2 mx)))"
    unfolding Trade_new_cases Let_def by simp
  have never: "\<not> distinct (map venue_getAddress (all_venues (Trade_swaps v1 v2 mx)))
        \<longrightarrow> (\<exists>e. Trade_new v1 v2 tt mx = Inl e)"
    unfolding Trade_new_cases Let_def by simp
  have ok: "distinct (map venue_getAddress (all_venues (Trade_swaps v1 v2 mx)))
        \<longrightarrow> Trade_new v1 v2 tt mx \<noteq> Inl POOLS_DUPLICATED"
    using dup by blast
  from dup never ok venues ids show ?thesis
    by blast
qed

theorem duplicate_venue_check_witness:
  "Trade_new [(route_v1_0_1, amount_of (Tok tok0) 100, amount_of (Tok tok1) 190)] []
             EXACT_INPUT
             (Some [(route_0_V1_1, amount_of (Tok tok0) 50, amount_of (Tok tok1) 49)])
      = Inl POOLS_DUPLICATED
   \<and> \<not> distinct (map venue_getAddress (all_venues (Trade_swaps
        [(route_v1_0_1, amount_of (Tok tok0) 100, amount_of (Tok tok1) 190)] []
        (Some [(route_0_V1_1, amount_of (Tok tok0) 50, amount_of (Tok tok1) 49)]))))
   \<and> distinct (map venue_getAddress (all_venues (Trade_swaps
        [(route_v1_0_1, amount_of (Tok tok0) 100, amount_of (Tok tok1) 190)]
        [(route_v2_0_1, amount_of (Tok tok0) 50, amount_of (Tok tok1) 49)] None)))
   \<and> Trade_new [(route_v1_0_1, amount_of (Tok tok0) 100, amount_of (Tok tok1) 190)]
               [(route_v2_0_1, amount_of (Tok tok0) 50, amount_of (Tok tok1) 49)] EXACT_INPUT None
       \<noteq> Inl POOLS_DUPLICATED"
proof -
  let ?a = "(route_v1_0_1, amount_of (Tok tok0) 100, amount_of (Tok tok1) 190)"
  let ?m = "(route_0_V1_1, amount_of (Tok tok0) 50, amount_of (Tok tok1) 49)"
  let ?b = "(route_v2_0_1, amount_of (Tok tok0) 50, amount_of (Tok tok1) 49)"
  have ne: "Trade_swaps [?a] [] (Some [?m]) \<noteq> []"
    by (simp add: Trade_swaps_def)
  have im: "input_currency_match (Trade_swaps [?a] [] (Some [?m]))"
    and om: "output_currency_match (Trade_swaps [?a] [] (Some [?m]))"
    by (simp_all add: Trade_swaps_def input_currency_match_def output_currency_match_def
        Token_equals_def test_routes)
  have dup: "\<not> distinct (map venue_getAddress (all_venues (Trade_swaps [?a] [] (Some [?m]))))"
    by (simp add: Trade_swaps_def all_venues_def test_routes)
  have nodup: "distinct (map venue_getAddress (all_venues (Trade_swaps [?a] [?b] None)))"
    by (simp add: Trade_swaps_def all_venues_def Pool_getAddress_def Pair_getAddress_def test_routes)
  from duplicate_venue_check [of "[?a]" "[]" EXACT_INPUT "Some [?m]"] ne im om dup
  have fails: "Trade_new [?a] [] EXACT_INPUT (Some [?m]) = Inl POOLS_DUPLICATED"
    by blast
  from duplicate_venue_check [of "[?a]" "[?b]" EXACT_INPUT None] nodup
  have passes: "Trade_new [?a] [?b] EXACT_INPUT None \<noteq> Inl POOLS_DUPLICATED"
    by blast
  from fails dup nodup passes show ?thesis
    by blast
qed

section \<open>Properties of the derived amounts\<close>

lemma foldl_CurrencyAmount_add:
  "foldl CurrencyAmount_add a xs = \<lparr> currency = currency a, fraction = fraction a + sum_list (map fraction xs) \<rparr>"
  by (induction xs arbitrary: a) (simp_all add: CurrencyAmount_add_def add.assoc)


lemma Trade_inputAmount_fresh:
  assumes "swaps t \<noteq> []" and "cached_inputAmount t = None"
  shows "Trade_inputAmount t =
     Inr (\<lparr> currency = currency (inputAmount (hd (swaps t))), fraction = total_input (swaps t) \<rparr>,
          t\<lparr>cached_inputAmount :=
               Some \<lparr> currency = currency (inputAmount (hd (swaps t))), fraction = total_input (swaps t) \<rparr>\<rparr>)"
  using assms
  by (cases "swaps t")
    (simp_all add: Trade_inputAmount_def Let_def foldl_CurrencyAmount_add CurrencyAmount_add_def
      CurrencyAmount_fromRawAmount_def total_input_def comp_def)

lemma Trade_outputAmount_fresh:
  assumes "swaps t \<noteq> []" and "cached_outputAmount t = None"
  shows "Trade_outputAmount t =
     Inr (\<lparr> currency = currency (outputAmount (hd (swaps t))), fraction = total_output (swaps t) \<rparr>,
          t\<lparr>cached_outputAmount :=
               Some \<lparr> currency = currency (outputAmount (hd (swaps t))), fraction = total_output (swaps t) \<rparr>\<rparr>)"
  using assms
  by (cases "swaps t")
    (simp_all add: Trade_outputAmount_def Let_def foldl_CurrencyAmount_add CurrencyAmount_add_def
      CurrencyAmount_fromRawAmount_def total_output_def comp_def)

lemma Trade_inputAmount_cached:
  "cached_inputAmount t = Some a \<Longrightarrow> Trade_inputAmount t = Inr (a, t)"
  by (simp add: Trade_inputAmount_def)

lemma Trade_outputAmount_cached:
  "cached_outputAmount t = Some a \<Longrightarrow> Trade_outputAmount t = Inr (a, t)"
  by (simp add: Trade_outputAmount_def)

text \<open>
  C3. For every constructed trade the input amount getter returns exactly the sum of the
  swaps' input amounts and the output amount getter exactly the sum of their output
  amounts, as rational numbers, in the currency of the first swap's amount, whose wrapped
  form is the wrapped input (output) currency of every route of the trade. The getter
  caches this value, and reading it again returns the same amount.
\<close>

theorem trade_amount_totals:
  assumes "Trade_new v1 v2 tt mx = Inr t"
  shows "(\<exists>t'. Trade_inputAmount t =
              Inr (\<lparr> currency = currency (inputAmount (hd (swaps t))),
                      fraction = sum_list (map (\<lambda>s. fraction (inputAmount s)) (swaps t)) \<rparr>, t')
            \<and> Trade_inputAmount t' =
              Inr (\<lparr> currency = currency (inputAmount (hd (swaps t))),
                      fraction = sum_list (map (\<lambda>s. fraction (inputAmount s)) (swaps t)) \<rparr>, t'))
       \<and> (\<exists>t'. Trade_outputAmount t =
              Inr (\<lparr> currency = currency (outputAmount (hd (swaps t))),
                      fraction = sum_list (map (\<lambda>s. fraction (outputAmount s)) (swaps t)) \<rparr>, t')
            \<and> Trade_outputAmount t' =
              Inr (\<lparr> currency = currency (outputAmount (hd (swaps t))),
                      fraction = sum_list (map (\<lambda>s. fraction (outputAmount s)) (swaps t)) \<rparr>, t'))
       \<and> list_all (\<lambda>s. Token_equals (wrapped (currency (inputAmount (hd (swaps t)))))
                           (wrapped (route_input (route s)))) (swaps t)
       \<and> list_all (\<lambda>s. Token_equals (wrapped (currency (outputAmount (hd (swaps t)))))
                           (wrapped (route_output (route s)))) (swaps t)"
proof -
  note built = Trade_new_Inr [OF assms]
  have sw: "swaps t = Trade_swaps v1 v2 mx" and ne: "swaps t \<noteq> []"
    and ci: "cached_inputAmount t = None" and co: "cached_outputAmount t = None"
    using built(1,2) by simp_all
  let ?i = "\<lparr> currency = currency (inputAmount (hd (swaps t))), fraction = total_input (swaps t) \<rparr>"
  let ?o = "\<lparr> currency = currency (outputAmount (hd (swaps t))), fraction = total_output (swaps t) \<rparr>"
  have i1: "Trade_inputAmount t = Inr (?i, t\<lparr>cached_inputAmount := Some ?i\<rparr>)"
    by (rule Trade_inputAmount_fresh [OF ne ci])
  have i2: "Trade_inputAmount (t\<lparr>cached_inputAmount := Some ?i\<rparr>) = Inr (?i, t\<lparr>cached_inputAmount := Some ?i\<rparr>)"
    by (rule Trade_inputAmount_cached) simp
  have o1: "Trade_outputAmount t = Inr (?o, t\<lparr>cached_outputAmount := Some ?o\<rparr>)"
    by (rule Trade_outputAmount_fresh [OF ne co])
  have o2: "Trade_outputAmount (t\<lparr>cached_outputAmount := Some ?o\<rparr>) = Inr (?o, t\<lparr>cached_outputAmount := Some ?o\<rparr>)"
    by (rule Trade_outputAmount_cached) simp
  have m: "list_all (\<lambda>s. Token_equals (wrapped (currency (inputAmount (hd (swaps t)))))
                           (wrapped (route_input (route s)))) (swaps t)"
    "list_all (\<lambda>s. Token_equals (wrapped (currency (outputAmount (hd (swaps t)))))
                           (wrapped (route_output (route s)))) (swaps t)"
    using built(3,4) unfolding sw input_currency_match_def output_currency_match_def by simp_all
  from i1 i2 o1 o2 m show ?thesis
    unfolding total_input_def total_output_def by blast
qed

theorem trade_amount_totals_witness:
  "Trade_new [(route_v1_0_1, amount_of (Tok tok0) 100, amount_of (Tok tok1) 190)]
             [(route_v2_0_1, amount_of (Tok tok0) 50, amount_of (Tok tok1) 49)] EXACT_INPUT None
     = Inr (split_trade EXACT_INPUT)
   \<and> (\<exists>t'. Trade_inputAmount (split_trade EXACT_INPUT) = Inr (amount_of (Tok tok0) 150, t'))
   \<and> (\<exists>t'. Trade_outputAmount (split_trade EXACT_INPUT) = Inr (amount_of (Tok tok1) 239, t'))"
proof -
  note th = trade_amount_totals [OF split_trade_new [of EXACT_INPUT]]
  have i: "\<lparr> currency = currency (inputAmount (hd (swaps (split_trade EXACT_INPUT)))),
             fraction = sum_list (map (\<lambda>s. fraction (inputAmount s)) (swaps (split_trade EXACT_INPUT))) \<rparr>
           = amount_of (Tok tok0) 150"
    and o: "\<lparr> currency = currency (outputAmount (hd (swaps (split_trade EXACT_INPUT)))),
             fraction = sum_list (map (\<lambda>s. fraction (outputAmount s)) (swaps (split_trade EXACT_INPUT))) \<rparr>
           = amount_of (Tok tok1) 239"
    by (simp_all add: split_trade_def split_swaps_def amount_of_def)
  from th show ?thesis
    unfolding i o using split_trade_new [of EXACT_INPUT] by blast
qed

subsection \<open>Price impact\<close>







subsection \<open>Slippage bounds\<close>

lemma Trade_minimumAmountOut_given:
  "Trade_minimumAmountOut t tol (Some a) =
     (if tol < 0 then Inl SLIPPAGE_TOLERANCE
      else if tradeType t = EXACT_OUTPUT then Inr (a, t)
      else if 1 + tol = 0 then Inl RangeError
      else Inr (\<lparr> currency = currency a,
                  fraction = of_int (Fraction_quotient
                    (of_int (Fraction_quotient (fraction a)) / (1 + tol))) \<rparr>, t))"
  by (simp add: Trade_minimumAmountOut_def Fraction_lessThan_def ZERO_def ONE_def Fraction_add_def
      Fraction_invert_def Fraction_multiply_def CurrencyAmount_fromRawAmount_def Let_def)

lemma Trade_maximumAmountIn_given:
  "Trade_maximumAmountIn t tol (Some a) =
     (if tol < 0 then Inl SLIPPAGE_TOLERANCE
      else if tradeType t = EXACT_INPUT then Inr (a, t)
      else Inr (\<lparr> currency = currency a,
                  fraction = of_int (Fraction_quotient
                    ((1 + tol) * of_int (Fraction_quotient (fraction a)))) \<rparr>, t))"
  by (simp add: Trade_maximumAmountIn_def Fraction_lessThan_def ZERO_def ONE_def Fraction_add_def
      Fraction_multiply_def CurrencyAmount_fromRawAmount_def Let_def)

lemma Trade_minimumAmountOut_default:
  assumes "Trade_outputAmount t = Inr (a, t1)"
  shows "Trade_minimumAmountOut t tol None = Trade_minimumAmountOut t1 tol (Some a)"
  by (simp add: Trade_minimumAmountOut_def assms)

lemma Trade_maximumAmountIn_default:
  assumes "Trade_inputAmount t = Inr (a, t1)"
  shows "Trade_maximumAmountIn t tol None = Trade_maximumAmountIn t1 tol (Some a)"
  by (simp add: Trade_maximumAmountIn_def assms)

lemma minimumAmountOut_constructed:
  assumes "Trade_new v1 v2 tt mx = Inr t"
  shows "map_sum id fst (Trade_minimumAmountOut t tol arg) =
     (if tol < 0 then Inl SLIPPAGE_TOLERANCE
      else if tt = EXACT_OUTPUT then Inr (output_or_given t arg)
      else if 1 + tol = 0 then Inl RangeError
      else Inr \<lparr> currency = currency (output_or_given t arg),
                 fraction = of_int (Fraction_quotient
                   (of_int (Fraction_quotient (fraction (output_or_given t arg))) / (1 + tol))) \<rparr>)"
proof (cases arg)
  case None
  note built = Trade_new_Inr [OF assms]
  have ne: "swaps t \<noteq> []" and co: "cached_outputAmount t = None" and ty: "tradeType t = tt"
    using built(1,2) by simp_all
  show ?thesis
    unfolding None Trade_minimumAmountOut_default [OF Trade_outputAmount_fresh [OF ne co]]
      Trade_minimumAmountOut_given
    by (simp add: ty output_or_given_def total_output_def)
next
  case (Some a)
  have ty: "tradeType t = tt"
    using Trade_new_Inr(1) [OF assms] by simp
  show ?thesis
    unfolding Some Trade_minimumAmountOut_given by (simp add: ty output_or_given_def)
qed

lemma maximumAmountIn_constructed:
  assumes "Trade_new v1 v2 tt mx = Inr t"
  shows "map_sum id fst (Trade_maximumAmountIn t tol arg) =
     (if tol < 0 then Inl SLIPPAGE_TOLERANCE
      else if tt = EXACT_INPUT then Inr (input_or_given t arg)
      else Inr \<lparr> currency = currency (input_or_given t arg),
                 fraction = of_int (Fraction_quotient
                   ((1 + tol) * of_int (Fraction_quotient (fraction (input_or_given t arg))))) \<rparr>)"
proof (cases arg)
  case None
  note built = Trade_new_Inr [OF assms]
  have ne: "swaps t \<noteq> []" and ci: "cached_inputAmount t = None" and ty: "tradeType t = tt"
    using built(1,2) by simp_all
  show ?thesis
    unfolding None Trade_maximumAmountIn_default [OF Trade_inputAmount_fresh [OF ne ci]]
      Trade_maximumAmountIn_given
    by (simp add: ty input_or_given_def total_input_def)
next
  case (Some a)
  have ty: "tradeType t = tt"
    using Trade_new_Inr(1) [OF assms] by simp
  show ?thesis
    unfolding Some Trade_maximumAmountIn_given by (simp add: ty input_or_given_def)
qed

lemma Fraction_quotient_nonneg: "0 \<le> x \<Longrightarrow> Fraction_quotient x = \<lfloor>x\<rfloor>"
  by (simp add: Fraction_quotient_def)

lemma Fraction_quotient_whole: "x \<in> \<int> \<Longrightarrow> of_int (Fraction_quotient x) = x"
  by (auto simp add: Fraction_quotient_def elim!: Ints_cases)

lemma Fraction_quotient_of_int [simp]: "Fraction_quotient (of_int n) = n"
  by (simp add: Fraction_quotient_def)

lemma split_trade_output:
  "output_or_given (split_trade tt) None = amount_of (Tok tok1) 239"
  by (simp add: output_or_given_def split_trade_def split_swaps_def amount_of_def)

lemma split_trade_input:
  "input_or_given (split_trade tt) None = amount_of (Tok tok0) 150"
  by (simp add: input_or_given_def split_trade_def split_swaps_def amount_of_def)

text \<open>
  C6, as the claim states it, fails: on an exact-input trade the accessor does not return
  the output amount divided by (1 + tolerance), it returns the whole number of raw units
  below it. The example trade has output 239; at a tolerance of one half the accessor
  returns 159, and 239 / (1 + 1/2) is not 159.
\<close>

theorem minimum_amount_out_is_not_the_quotient:
  "Trade_new [(route_v1_0_1, amount_of (Tok tok0) 100, amount_of (Tok tok1) 190)]
             [(route_v2_0_1, amount_of (Tok tok0) 50, amount_of (Tok tok1) 49)] EXACT_INPUT None
     = Inr (split_trade EXACT_INPUT)
   \<and> map_sum id fst (Trade_outputAmount (split_trade EXACT_INPUT)) = Inr (amount_of (Tok tok1) 239)
   \<and> map_sum id fst (Trade_minimumAmountOut (split_trade EXACT_INPUT) (1 / 2) None)
       = Inr (amount_of (Tok tok1) 159)
   \<and> amount_of (Tok tok1) 159 \<noteq> amount_of (Tok tok1) (239 / (1 + 1 / 2))"
proof -
  note c = split_trade_new [of EXACT_INPUT]
  have ne: "swaps (split_trade EXACT_INPUT) \<noteq> []"
    and co: "cached_outputAmount (split_trade EXACT_INPUT) = None"
    by (simp_all add: split_trade_def split_swaps_def)
  have o: "map_sum id fst (Trade_outputAmount (split_trade EXACT_INPUT)) = Inr (amount_of (Tok tok1) 239)"
    unfolding Trade_outputAmount_fresh [OF ne co]
    by (simp add: split_trade_def split_swaps_def amount_of_def total_output_def)
  have m: "map_sum id fst (Trade_minimumAmountOut (split_trade EXACT_INPUT) (1 / 2) None)
       = Inr (amount_of (Tok tok1) 159)"
    unfolding minimumAmountOut_constructed [OF c] split_trade_output
    by (simp add: amount_of_def Fraction_quotient_def floor_eq_iff)
  have d: "amount_of (Tok tok1) 159 \<noteq> amount_of (Tok tok1) (239 / (1 + 1 / 2))"
    by (simp add: amount_of_def)
  from c o m d show ?thesis
    by blast
qed

text \<open>
  C6, amended. For every constructed trade and every tolerance: the accessor fails with
  the slippage condition when the tolerance is negative, whatever the amount. Otherwise,
  on an exact-output trade it returns the amount unchanged, and on an exact-input trade it
  returns the whole raw amount obtained by dividing the integer quotient of the amount by
  (1 + tolerance) and truncating. With tolerance 0 on an exact-input trade this is the
  integer quotient of the amount, which is the output amount itself whenever that is a
  whole amount. The amount is the one passed in, or the trade's output amount.
\<close>

theorem minimum_amount_out_cases:
  assumes "Trade_new v1 v2 tt mx = Inr t"
  shows "(tol < 0 \<longrightarrow> Trade_minimumAmountOut t tol arg = Inl SLIPPAGE_TOLERANCE)
       \<and> (0 \<le> tol \<and> tt = EXACT_OUTPUT \<longrightarrow>
            map_sum id fst (Trade_minimumAmountOut t tol arg) = Inr (output_or_given t arg))
       \<and> (0 \<le> tol \<and> tt = EXACT_INPUT \<longrightarrow>
            map_sum id fst (Trade_minimumAmountOut t tol arg) =
              Inr \<lparr> currency = currency (output_or_given t arg),
                    fraction = of_int (Fraction_quotient
                      (of_int (Fraction_quotient (fraction (output_or_given t arg))) / (1 + tol))) \<rparr>)
       \<and> (tt = EXACT_INPUT \<longrightarrow>
            map_sum id fst (Trade_minimumAmountOut t 0 arg) =
              Inr \<lparr> currency = currency (output_or_given t arg),
                    fraction = of_int (Fraction_quotient (fraction (output_or_given t arg))) \<rparr>)
       \<and> (tt = EXACT_INPUT \<and> fraction (output_or_given t arg) \<in> \<int> \<longrightarrow>
            map_sum id fst (Trade_minimumAmountOut t 0 arg) = Inr (output_or_given t arg))"
proof -
  note eq = minimumAmountOut_constructed [OF assms]
  have neg: "tol < 0 \<longrightarrow> Trade_minimumAmountOut t tol arg = Inl SLIPPAGE_TOLERANCE"
  proof
    assume "tol < 0"
    then have "map_sum id fst (Trade_minimumAmountOut t tol arg) = Inl SLIPPAGE_TOLERANCE"
      by (simp add: eq)
    then show "Trade_minimumAmountOut t tol arg = Inl SLIPPAGE_TOLERANCE"
      by (cases "Trade_minimumAmountOut t tol arg") simp_all
  qed
  have out: "0 \<le> tol \<and> tt = EXACT_OUTPUT \<longrightarrow>
            map_sum id fst (Trade_minimumAmountOut t tol arg) = Inr (output_or_given t arg)"
    by (simp add: eq)
  have inp: "0 \<le> tol \<and> tt = EXACT_INPUT \<longrightarrow>
            map_sum id fst (Trade_minimumAmountOut t tol arg) =
              Inr \<lparr> currency = currency (output_or_given t arg),
                    fraction = of_int (Fraction_quotient
                      (of_int (Fraction_quotient (fraction (output_or_given t arg))) / (1 + tol))) \<rparr>"
    by (simp add: eq)
  have zero: "tt = EXACT_INPUT \<longrightarrow>
            map_sum id fst (Trade_minimumAmountOut t 0 arg) =
              Inr \<lparr> currency = currency (output_or_given t arg),
                    fraction = of_int (Fraction_quotient (fraction (output_or_given t arg))) \<rparr>"
    by (simp add: minimumAmountOut_constructed [OF assms, of 0])
  have whole: "tt = EXACT_INPUT \<and> fraction (output_or_given t arg) \<in> \<int> \<longrightarrow>
            map_sum id fst (Trade_minimumAmountOut t 0 arg) = Inr (output_or_given t arg)"
    using zero by (simp add: Fraction_quotient_whole)
  from neg out inp zero whole show ?thesis
    by blast
qed

theorem minimum_amount_out_cases_witness:
  "Trade_new [(route_v1_0_1, amount_of (Tok tok0) 100, amount_of (Tok tok1) 190)]
             [(route_v2_0_1, amount_of (Tok tok0) 50, amount_of (Tok tok1) 49)] EXACT_INPUT None
     = Inr (split_trade EXACT_INPUT)
   \<and> Trade_new [(route_v1_0_1, amount_of (Tok tok0) 100, amount_of (Tok tok1) 190)]
               [(route_v2_0_1, amount_of (Tok tok0) 50, amount_of (Tok tok1) 49)] EXACT_OUTPUT None
     = Inr (split_trade EXACT_OUTPUT)
   \<and> Trade_minimumAmountOut (split_trade EXACT_INPUT) (- 1 / 100) None = Inl SLIPPAGE_TOLERANCE
   \<and> map_sum id fst (Trade_minimumAmountOut (split_trade EXACT_OUTPUT) (1 / 2) None)
       = Inr (amount_of (Tok tok1) 239)
   \<and> map_sum id fst (Trade_minimumAmountOut (split_trade EXACT_INPUT) (1 / 2) None)
       = Inr (amount_of (Tok tok1) 159)
   \<and> map_sum id fst (Trade_minimumAmountOut (split_trade EXACT_INPUT) 0 None)
       = Inr (amount_of (Tok tok1) 239)"
proof -
  note ci = split_trade_new [of EXACT_INPUT]
  note co = split_trade_new [of EXACT_OUTPUT]
  note thi = minimum_amount_out_cases [OF ci, where arg = None]
  note tho = minimum_amount_out_cases [OF co, where arg = None]
  have w: "fraction (amount_of (Tok tok1) 239) \<in> \<int>"
    by (simp add: amount_of_def)
  have a: "Trade_minimumAmountOut (split_trade EXACT_INPUT) (- 1 / 100) None = Inl SLIPPAGE_TOLERANCE"
    using thi [of "- 1 / 100"] by simp
  have b: "map_sum id fst (Trade_minimumAmountOut (split_trade EXACT_OUTPUT) (1 / 2) None)
       = Inr (amount_of (Tok tok1) 239)"
    using tho [of "1 / 2"] by (simp add: split_trade_output)
  have c: "map_sum id fst (Trade_minimumAmountOut (split_trade EXACT_INPUT) (1 / 2) None)
       = Inr (amount_of (Tok tok1) 159)"
    using thi [of "1 / 2"]
    by (simp add: split_trade_output amount_of_def Fraction_quotient_def floor_eq_iff)
  have d: "map_sum id fst (Trade_minimumAmountOut (split_trade EXACT_INPUT) 0 None)
       = Inr (amount_of (Tok tok1) 239)"
    using thi [of 0] w unfolding split_trade_output by blast
  from ci co a b c d show ?thesis
    by blast
qed

text \<open>
  C10, as the claim states it, fails on an amount that is not a whole number of raw
  units: the accessors take the integer quotient of the amount before they apply the
  tolerance. For an amount of 3/2 and a tolerance of one half the minimum amount out is
  0, while the floor of (3/2) / (1 + 1/2) is 1; for an amount of 1/2 and a tolerance of 1
  the maximum amount in is 0, while the floor of (1/2) * (1 + 1) is 1.
\<close>

theorem bounds_truncate_the_amount_first:
  "Trade_new [(route_v1_0_1, amount_of (Tok tok0) 100, amount_of (Tok tok1) 190)]
             [(route_v2_0_1, amount_of (Tok tok0) 50, amount_of (Tok tok1) 49)] EXACT_INPUT None
     = Inr (split_trade EXACT_INPUT)
   \<and> map_sum id fst (Trade_minimumAmountOut (split_trade EXACT_INPUT) (1 / 2)
                        (Some (amount_of (Tok tok1) (3 / 2))))
       = Inr (amount_of (Tok tok1) 0)
   \<and> \<lfloor>(3 / 2 :: rat) / (1 + 1 / 2)\<rfloor> = 1
   \<and> Trade_new [(route_v1_0_1, amount_of (Tok tok0) 100, amount_of (Tok tok1) 190)]
               [(route_v2_0_1, amount_of (Tok tok0) 50, amount_of (Tok tok1) 49)] EXACT_OUTPUT None
     = Inr (split_trade EXACT_OUTPUT)
   \<and> map_sum id fst (Trade_maximumAmountIn (split_trade EXACT_OUTPUT) 1
                        (Some (amount_of (Tok tok0) (1 / 2))))
       = Inr (amount_of (Tok tok0) 0)
   \<and> \<lfloor>(1 / 2 :: rat) * (1 + 1)\<rfloor> = 1"
proof -
  note ci = split_trade_new [of EXACT_INPUT]
  note co = split_trade_new [of EXACT_OUTPUT]
  have q: "Fraction_quotient (3 / 2) = 1" "Fraction_quotient (1 / 2) = 0"
    "Fraction_quotient (2 / 3) = 0" "Fraction_quotient 0 = 0"
    by (simp_all add: Fraction_quotient_def floor_eq_iff)
  have a: "map_sum id fst (Trade_minimumAmountOut (split_trade EXACT_INPUT) (1 / 2)
                        (Some (amount_of (Tok tok1) (3 / 2))))
       = Inr (amount_of (Tok tok1) 0)"
    unfolding minimumAmountOut_constructed [OF ci]
    by (simp add: output_or_given_def amount_of_def q)
  have b: "map_sum id fst (Trade_maximumAmountIn (split_trade EXACT_OUTPUT) 1
                        (Some (amount_of (Tok tok0) (1 / 2))))
       = Inr (amount_of (Tok tok0) 0)"
    unfolding maximumAmountIn_constructed [OF co]
    by (simp add: input_or_given_def amount_of_def q)
  have c: "\<lfloor>(3 / 2 :: rat) / (1 + 1 / 2)\<rfloor> = 1" "\<lfloor>(1 / 2 :: rat) * (1 + 1)\<rfloor> = 1"
    by (simp_all add: floor_eq_iff)
  from ci co a b c show ?thesis
    by blast
qed

text \<open>
  C10, amended. For every constructed trade, every nonnegative tolerance t and every
  nonnegative amount: the minimum amount out of an exact-input trade is the integer floor
  of q / (1 + t) and the maximum amount in of an exact-output trade is the integer floor of
  q * (1 + t), where q is the integer floor of the amount; the results are whole raw
  units. When the amount is itself a whole number of raw units these are the floor of
  amountOut / (1 + t) and the floor of amountIn * (1 + t).
\<close>

theorem slippage_bounds_floor:
  assumes "Trade_new v1 v2 tt mx = Inr t" and "0 \<le> tol"
  shows "(tt = EXACT_INPUT \<and> 0 \<le> fraction (output_or_given t arg) \<longrightarrow>
            map_sum id fst (Trade_minimumAmountOut t tol arg) =
              Inr \<lparr> currency = currency (output_or_given t arg),
                    fraction = of_int \<lfloor>of_int \<lfloor>fraction (output_or_given t arg)\<rfloor> / (1 + tol)\<rfloor> \<rparr>)
       \<and> (tt = EXACT_INPUT \<and> 0 \<le> fraction (output_or_given t arg)
            \<and> fraction (output_or_given t arg) \<in> \<int> \<longrightarrow>
            map_sum id fst (Trade_minimumAmountOut t tol arg) =
              Inr \<lparr> currency = currency (output_or_given t arg),
                    fraction = of_int \<lfloor>fraction (output_or_given t arg) / (1 + tol)\<rfloor> \<rparr>)
       \<and> (tt = EXACT_OUTPUT \<and> 0 \<le> fraction (input_or_given t arg) \<longrightarrow>
            map_sum id fst (Trade_maximumAmountIn t tol arg) =
              Inr \<lparr> currency = currency (input_or_given t arg),
                    fraction = of_int \<lfloor>of_int \<lfloor>fraction (input_or_given t arg)\<rfloor> * (1 + tol)\<rfloor> \<rparr>)
       \<and> (tt = EXACT_OUTPUT \<and> 0 \<le> fraction (input_or_given t arg)
            \<and> fraction (input_or_given t arg) \<in> \<int> \<longrightarrow>
            map_sum id fst (Trade_maximumAmountIn t tol arg) =
              Inr \<lparr> currency = currency (input_or_given t arg),
                    fraction = of_int \<lfloor>fraction (input_or_given t arg) * (1 + tol)\<rfloor> \<rparr>)"
proof -
  have pos: "0 < 1 + tol" and nz: "1 + tol \<noteq> 0" and nn: "\<not> tol < 0"
    using assms(2) by simp_all
  have q: "Fraction_quotient x = \<lfloor>x\<rfloor>" if "0 \<le> x" for x
    using that by (rule Fraction_quotient_nonneg)
  have fl: "0 \<le> (of_int \<lfloor>x\<rfloor> :: rat)" if "0 \<le> x" for x :: rat
    using that by simp
  have whole: "(of_int \<lfloor>x\<rfloor> :: rat) = x" if "x \<in> \<int>" for x :: rat
    using that by (auto elim!: Ints_cases)
  have mn: "map_sum id fst (Trade_minimumAmountOut t tol arg) =
              Inr \<lparr> currency = currency (output_or_given t arg),
                    fraction = of_int \<lfloor>of_int \<lfloor>fraction (output_or_given t arg)\<rfloor> / (1 + tol)\<rfloor> \<rparr>"
    if "tt = EXACT_INPUT" and a: "0 \<le> fraction (output_or_given t arg)"
  proof -
    have "0 \<le> (of_int \<lfloor>fraction (output_or_given t arg)\<rfloor> :: rat) / (1 + tol)"
      using fl [OF a] pos by simp
    then show ?thesis
      unfolding minimumAmountOut_constructed [OF assms(1)]
      using that nn nz by (simp add: q)
  qed
  have mx: "map_sum id fst (Trade_maximumAmountIn t tol arg) =
              Inr \<lparr> currency = currency (input_or_given t arg),
                    fraction = of_int \<lfloor>of_int \<lfloor>fraction (input_or_given t arg)\<rfloor> * (1 + tol)\<rfloor> \<rparr>"
    if "tt = EXACT_OUTPUT" and a: "0 \<le> fraction (input_or_given t arg)"
  proof -
    have "0 \<le> (1 + tol) * (of_int \<lfloor>fraction (input_or_given t arg)\<rfloor> :: rat)"
      using fl [OF a] pos by simp
    then show ?thesis
      unfolding maximumAmountIn_constructed [OF assms(1)]
      using that nn by (simp add: q mult.commute)
  qed
  from mn mx whole show ?thesis
    by metis
qed

theorem slippage_bounds_floor_witness:
  "Trade_new [(route_v1_0_1, amount_of (Tok tok0) 100, amount_of (Tok tok1) 190)]
             [(route_v2_0_1, amount_of (Tok tok0) 50, amount_of (Tok tok1) 49)] EXACT_INPUT None
     = Inr (split_trade EXACT_INPUT)
   \<and> map_sum id fst (Trade_minimumAmountOut (split_trade EXACT_INPUT) (1 / 2) None)
       = Inr (amount_of (Tok tok1) 159)
   \<and> \<lfloor>(239 :: rat) / (1 + 1 / 2)\<rfloor> = 159
   \<and> Trade_new [(route_v1_0_1, amount_of (Tok tok0) 100, amount_of (Tok tok1) 190)]
               [(route_v2_0_1, amount_of (Tok tok0) 50, amount_of (Tok tok1) 49)] EXACT_OUTPUT None
     = Inr (split_trade EXACT_OUTPUT)
   \<and> map_sum id fst (Trade_maximumAmountIn (split_trade EXACT_OUTPUT) (1 / 4) None)
       = Inr (amount_of (Tok tok0) 187)
   \<and> \<lfloor>(150 :: rat) * (1 + 1 / 4)\<rfloor> = 187"
proof -
  note ci = split_trade_new [of EXACT_INPUT]
  note co = split_trade_new [of EXACT_OUTPUT]
  have h: "(0 :: rat) \<le> 1 / 2" "(0 :: rat) \<le> 1 / 4"
    by simp_all
  have fo: "fraction (amount_of (Tok tok1) 239) = 239" "currency (amount_of (Tok tok1) 239) = Tok tok1"
    and fi: "fraction (amount_of (Tok tok0) 150) = 150" "currency (amount_of (Tok tok0) 150) = Tok tok0"
    by (simp_all add: amount_of_def)
  have f: "\<lfloor>(239 :: rat) / (1 + 1 / 2)\<rfloor> = 159" "\<lfloor>(150 :: rat) * (1 + 1 / 4)\<rfloor> = 187"
    by (simp_all add: floor_eq_iff)
  from slippage_bounds_floor [OF ci h(1), where arg = None]
  have a: "map_sum id fst (Trade_minimumAmountOut (split_trade EXACT_INPUT) (1 / 2) None)
       = Inr (amount_of (Tok tok1) 159)"
    unfolding split_trade_output fo by (simp add: amount_of_def floor_eq_iff)
  from slippage_bounds_floor [OF co h(2), where arg = None]
  have b: "map_sum id fst (Trade_maximumAmountIn (split_trade EXACT_OUTPUT) (1 / 4) None)
       = Inr (amount_of (Tok tok0) 187)"
    unfolding split_trade_input fi by (simp add: amount_of_def floor_eq_iff)
  from ci co a b f show ?thesis
    by blast
qed

end
